theory Spec2Isabelle
  imports Complex_Main
begin

section \<open>Deep research: the recursive orchestration engine and the prompt trimmer\<close>

text \<open>
  A shallow embedding of \<^verbatim>\<open>src/deep-research.ts\<close> (the orchestrator
  \<^verbatim>\<open>deepResearch\<close> and its branch executor \<^verbatim>\<open>processSingleSerpQuery\<close>)
  and of \<^verbatim>\<open>trimPrompt\<close> from \<^verbatim>\<open>src/prompt.ts\<close>.

  Conventions.
  \<^item> A JavaScript string is a \<^typ>\<open>string\<close>; one \<^typ>\<open>char\<close> stands for one UTF-16 code
    unit, which is what \<^verbatim>\<open>.length\<close> and \<^verbatim>\<open>.slice\<close> count. A \<^typ>\<open>char\<close> has
    eight bits, so the strings of the model are those whose code units are below 256.
  \<^item> \<^verbatim>\<open>breadth\<close>, \<^verbatim>\<open>depth\<close> and \<^verbatim>\<open>contextSize\<close> are integers (the command line
    reads them with \<^verbatim>\<open>parseInt\<close>).
  \<^item> The language model, the search provider, the tokenizer and the text splitter are
    parameters of the model (the record \<open>env\<close>). The three remote calls take and
    return a world state \<open>'w\<close>, so that the same request may be answered differently at
    different moments, and each of them may throw (\<open>Inl\<close>) any value of the type
    \<open>error\<close>.
  \<^item> Every function of the orchestrator returns, next to its value and the new world,
    the list of the effects it performed, in order (type \<open>event\<close>): remote calls, the
    rate-limit sleep, console output, and the nested call of \<^verbatim>\<open>deepResearch\<close> with
    its arguments and its own effects.
  \<^item> The model is sequential. \<^verbatim>\<open>ConcurrencyLimit\<close> is 1, so the branches of one
    \<^verbatim>\<open>deepResearch\<close> run one after the other. When a branch rejects,
    \<^verbatim>\<open>Promise.all\<close> rejects at once; the tasks still queued in \<^verbatim>\<open>p-limit\<close> run
    later, while the caller already goes on. The model returns the world and the effects
    at the moment of the rejection, and leaves that concurrent remainder out.
\<close>

subsection \<open>Data model\<close>

text \<open>
  What a \<^verbatim>\<open>catch (error: any)\<close> may receive, as far as the code looks at it. A
  promise can be rejected with \<^verbatim>\<open>undefined\<close> or \<^verbatim>\<open>null\<close>. Of any other value the
  code reads the property \<^verbatim>\<open>message\<close> only, which is
  \<^item> falsy and not a string (\<open>NoMessage\<close>: missing, as on a thrown string or number,
    or \<^verbatim>\<open>undefined\<close>, \<^verbatim>\<open>null\<close>, \<^verbatim>\<open>0\<close>, \<^verbatim>\<open>false\<close>),
  \<^item> a string (\<open>Message\<close>; the empty string is falsy), as on every \<^verbatim>\<open>Error\<close>,
  \<^item> or truthy with no method \<^verbatim>\<open>includes\<close> (\<open>OddMessage\<close>: a number, a plain
    object).

  A message with a method \<^verbatim>\<open>includes\<close> of its own (an array) and a property
  \<^verbatim>\<open>message\<close> whose getter throws are left out.
\<close>

datatype message = NoMessage | Message string | OddMessage

datatype error = ThrownUndefined | ThrownNull | Thrown message

record SerpQuery =
  query :: string
  researchGoal :: string

record ResearchResult =
  learnings :: "string list"
  visitedUrls :: "string list"

text \<open>One item of the search provider's \<^verbatim>\<open>SearchResponse.data\<close>; both fields are optional.\<close>

record SearchItem =
  url :: "string option"
  markdown :: "string option"

record SearchResponse =
  data :: "SearchItem list"

text \<open>
  \<^verbatim>\<open>SerpAnalysisResult\<close>; its field \<^verbatim>\<open>learnings\<close> is named \<open>analysisLearnings\<close> here,
  the name \<open>learnings\<close> being taken by \<open>ResearchResult\<close>.
\<close>

record SerpAnalysisResult =
  analysisLearnings :: "string list"
  followUpQuestions :: "string list"

datatype event =
    Sleep nat
  | FirecrawlSearch string
  | GenerateQueries string int "string list"
  | GenerateAnalysis string "string list" int int
  | LogCreatedQueries nat
  | LogRan string nat
  | LogCreatedLearnings nat
  | LogResearchingDeeper int int
  | LogTimeoutError string error
  | LogQueryError string error
  | DeepResearchCall string int int "string list" "string list" "event list"

text \<open>
  The collaborators. \<open>generateQueries\<close> is the \<^verbatim>\<open>generateObject\<close> call of
  \<^verbatim>\<open>generateSerpQueries\<close> (given the query, the number of queries and the learnings,
  from which the prompt and the schema are built), \<open>firecrawlSearch\<close> is
  \<^verbatim>\<open>firecrawl.search\<close>, \<open>generateAnalysis\<close> is the \<^verbatim>\<open>generateObject\<close> call of
  \<^verbatim>\<open>processSerpResult\<close> (query, trimmed contents, number of learnings, number of
  follow-up questions), \<open>countTokens\<close> is \<^verbatim>\<open>encoder.encode(prompt).length\<close> and
  \<open>splitText\<close> is \<^verbatim>\<open>new RecursiveCharacterTextSplitter({chunkSize, chunkOverlap: 0}).splitText\<close>.
\<close>

record 'w env =
  generateQueries :: "'w \<Rightarrow> string \<Rightarrow> int \<Rightarrow> string list \<Rightarrow> (error + SerpQuery list) \<times> 'w"
  firecrawlSearch :: "'w \<Rightarrow> string \<Rightarrow> (error + SearchResponse) \<times> 'w"
  generateAnalysis ::
    "'w \<Rightarrow> string \<Rightarrow> string list \<Rightarrow> int \<Rightarrow> int \<Rightarrow> (error + SerpAnalysisResult) \<times> 'w"
  countTokens :: "string \<Rightarrow> nat"
  splitText :: "int \<Rightarrow> string \<Rightarrow> string list"

subsection \<open>JavaScript library functions\<close>

text \<open>
  \<^verbatim>\<open>xs.slice(0, n)\<close> on a string or an array: a negative \<open>n\<close> counts from the end.
\<close>

definition slice0 :: "'a list \<Rightarrow> int \<Rightarrow> 'a list" where
  "slice0 xs n = (if n < 0 then take (nat (int (length xs) + n)) xs else take (nat n) xs)"

text \<open>lodash \<^verbatim>\<open>compact\<close> on optional strings: drops \<^verbatim>\<open>undefined\<close> and the empty string.\<close>

definition compact :: "string option list \<Rightarrow> string list" where
  "compact xs =
     concat (map (\<lambda>x. case x of None \<Rightarrow> [] | Some s \<Rightarrow> (if s = [] then [] else [s])) xs)"

text \<open>\<^verbatim>\<open>s.includes(sub)\<close>.\<close>

fun str_includes :: "string \<Rightarrow> string \<Rightarrow> bool" where
  "str_includes [] sub = (sub = [])"
| "str_includes (c # cs) sub = (take (length sub) (c # cs) = sub \<or> str_includes cs sub)"

text \<open>
  \<^verbatim>\<open>s.trim()\<close> strips white space and line terminators. Below 256 these are the
  tab, the line feed, the vertical tab, the form feed, the carriage return, the space and
  the no-break space U+00A0.
\<close>

definition isWhiteSpace :: "char \<Rightarrow> bool" where
  "isWhiteSpace c =
     (c \<in> {CHR 0x09, CHR 0x0A, CHR 0x0B, CHR 0x0C, CHR 0x0D, CHR '' '', CHR 0xA0})"

definition str_trim :: "string \<Rightarrow> string" where
  "str_trim s = rev (dropWhile isWhiteSpace (rev (dropWhile isWhiteSpace s)))"

text \<open>\<^verbatim>\<open>xs.join(sep)\<close>.\<close>

fun join :: "string list \<Rightarrow> string \<Rightarrow> string" where
  "join [] sep = []"
| "join [x] sep = x"
| "join (x # y # ys) sep = x @ sep @ join (y # ys) sep"

text \<open>
  \<^verbatim>\<open>[...new Set(xs)]\<close>: a JavaScript \<^verbatim>\<open>Set\<close> keeps its elements in insertion order
  and ignores the insertion of an element it already has.
\<close>

fun setAdd :: "'a list \<Rightarrow> 'a \<Rightarrow> 'a list" where
  "setAdd s x = (if x \<in> set s then s else s @ [x])"

definition newSet :: "'a list \<Rightarrow> 'a list" where
  "newSet xs = foldl setAdd [] xs"

subsection \<open>The prompt trimmer (\<^verbatim>\<open>prompt.ts\<close>)\<close>

definition MinChunkSize :: int where
  "MinChunkSize = 140"

text \<open>\<^verbatim>\<open>splitter.splitText(prompt)[0] ?? ''\<close>.\<close>

definition firstChunk :: "string list \<Rightarrow> string" where
  "firstChunk chunks = (case chunks of [] \<Rightarrow> [] | c # _ \<Rightarrow> c)"

text \<open>
  \<^verbatim>\<open>trimPrompt(prompt, contextSize)\<close>. The recursion of the source need not end for an
  arbitrary splitter, so the function is partial: \<open>None\<close> is the run that never returns.
\<close>

partial_function (option) trimPrompt ::
  "(string \<Rightarrow> nat) \<Rightarrow> (int \<Rightarrow> string \<Rightarrow> string list) \<Rightarrow> string \<Rightarrow> int \<Rightarrow> string option"
where
  "trimPrompt encodeLength splitter prompt contextSize =
     (if prompt = [] then Some []
      else
        let len = int (encodeLength prompt) in
        if len \<le> contextSize then Some prompt
        else
          let overflowTokens = len - contextSize;
              chunkSize = int (length prompt) - overflowTokens * 3 in
          if chunkSize < MinChunkSize then Some (slice0 prompt MinChunkSize)
          else
            let trimmedPrompt = firstChunk (splitter chunkSize prompt) in
            if length trimmedPrompt = length prompt
            then trimPrompt encodeLength splitter (slice0 prompt chunkSize) contextSize
            else trimPrompt encodeLength splitter trimmedPrompt contextSize)"

declare trimPrompt.simps [code]

text \<open>
  The argument of the recursive call that \<open>trimPrompt\<close> makes on \<open>prompt\<close>, if it makes
  one: the same tests as above, with \<open>None\<close> where \<open>trimPrompt\<close> returns at once.
\<close>

definition recursiveInput ::
  "(string \<Rightarrow> nat) \<Rightarrow> (int \<Rightarrow> string \<Rightarrow> string list) \<Rightarrow> string \<Rightarrow> int \<Rightarrow> string option"
where
  "recursiveInput encodeLength splitter prompt contextSize =
     (if prompt = [] then None
      else
        let len = int (encodeLength prompt) in
        if len \<le> contextSize then None
        else
          let overflowTokens = len - contextSize;
              chunkSize = int (length prompt) - overflowTokens * 3 in
          if chunkSize < MinChunkSize then None
          else
            let trimmedPrompt = firstChunk (splitter chunkSize prompt) in
            if length trimmedPrompt = length prompt
            then Some (slice0 prompt chunkSize)
            else Some trimmedPrompt)"

subsection \<open>A tokenizer and a splitter to run the trimmer on\<close>

text \<open>
  The tokenizer is the external library \<^verbatim>\<open>js-tiktoken\<close>. Where a concrete one is
  needed, this one counts a token for every four characters.
\<close>

definition fourCharTokens :: "string \<Rightarrow> nat" where
  "fourCharTokens s = (length s + 3) div 4"

text \<open>\<^verbatim>\<open>text.split('\n\n')\<close>: the pieces between paragraph breaks.\<close>

fun splitParagraphs :: "string \<Rightarrow> string list" where
  "splitParagraphs [] = [[]]"
| "splitParagraphs [c] = [[c]]"
| "splitParagraphs (a # b # cs) =
     (if a = CHR 0x0A \<and> b = CHR 0x0A then [] # splitParagraphs cs
      else (case splitParagraphs (b # cs) of
              [] \<Rightarrow> [[a]]
            | p # ps \<Rightarrow> (a # p) # ps))"

text \<open>Raw character cuts: pieces of \<open>n\<close> characters, the last one shorter.\<close>

function hardCuts :: "nat \<Rightarrow> string \<Rightarrow> string list" where
  "hardCuts n s = (if n = 0 \<or> length s \<le> n then [s] else take n s # hardCuts n (drop n s))"
  by pat_completeness auto
termination
  by (relation "measure (\<lambda>(n, s). length s)") auto

declare hardCuts.simps [simp del]

text \<open>
  Modelled from the spec: the module \<^verbatim>\<open>./ai/text-splitter\<close>
  (\<^verbatim>\<open>RecursiveCharacterTextSplitter\<close>) is not among the sources. The specification
  describes it as a separator-aware splitter that cuts the text into chunks of at most the
  target size, with no overlap, preferring paragraph breaks and falling back to raw
  character cuts. This splitter has those two levels: the text is cut at its paragraph
  breaks, empty paragraphs are dropped, and a paragraph longer than the chunk size is cut
  into pieces of the chunk size.
\<close>

definition paragraphSplitter :: "int \<Rightarrow> string \<Rightarrow> string list" where
  "paragraphSplitter chunkSize text =
     concat (map (hardCuts (nat chunkSize)) (filter (\<lambda>p. p \<noteq> []) (splitParagraphs text)))"

text \<open>
  Modelled from the spec: what is needed of the missing module \<^verbatim>\<open>./ai/text-splitter\<close>
  for the trimmer to make progress. The specification says that the splitter splits the
  text into chunks, of which the trimmer takes the first: a chunk is a piece of the text,
  so the first chunk is never longer than the text.
\<close>

definition splitsIntoPieces :: "(int \<Rightarrow> string \<Rightarrow> string list) \<Rightarrow> bool" where
  "splitsIntoPieces splitter = (\<forall>c t. length (firstChunk (splitter c t)) \<le> length t)"

text \<open>A splitter of raw character cuts only, whose chunks have the chunk size.\<close>

definition rawSplitter :: "int \<Rightarrow> string \<Rightarrow> string list" where
  "rawSplitter chunkSize text = hardCuts (nat chunkSize) text"

text \<open>
  A splitter whose first chunk is longer than the text it was given (the text, twice):
  with it the trimmer does not return on a text far over the budget.
\<close>

definition doublingSplitter :: "int \<Rightarrow> string \<Rightarrow> string list" where
  "doublingSplitter chunkSize text = [text @ text]"

text \<open>A three-character heading, a paragraph break, and a paragraph of 600 characters.\<close>

definition headingText :: string where
  "headingText = ''Hi.'' @ [CHR 0x0A, CHR 0x0A] @ replicate 600 CHR ''a''"

definition titledText :: string where
  "titledText = ''Title'' @ [CHR 0x0A, CHR 0x0A] @ replicate 700 CHR ''b''"

subsection \<open>The orchestrator (\<^verbatim>\<open>deep-research.ts\<close>)\<close>

definition RATE_LIMIT_MS :: nat where
  "RATE_LIMIT_MS = 1000"

text \<open>\<^verbatim>\<open>fetchSerpResults\<close>: the sleep, then the search.\<close>

definition fetchSerpResults ::
  "'w env \<Rightarrow> 'w \<Rightarrow> string \<Rightarrow> (error + SearchResponse) \<times> 'w \<times> event list" where
  "fetchSerpResults env w q =
     (case firecrawlSearch env w q of
        (r, w') \<Rightarrow> (r, w', [Sleep RATE_LIMIT_MS, FirecrawlSearch q]))"

definition extractUrlsFromResult :: "SearchResponse \<Rightarrow> string list" where
  "extractUrlsFromResult result = compact (map url (data result))"

definition generateNextResearchQuery :: "string \<Rightarrow> string list \<Rightarrow> string" where
  "generateNextResearchQuery goal followUps =
     ''Previous research goal: '' @ goal @ [CHR 0x0A] @ ''Follow-up research directions: ''
       @ join (map str_trim followUps) [CHR 0x0A]"

text \<open>
  The \<^verbatim>\<open>TypeError\<close> objects that reading \<^verbatim>\<open>error.message\<close> of
  \<^verbatim>\<open>undefined\<close> or \<^verbatim>\<open>null\<close>, and calling a missing \<^verbatim>\<open>includes\<close>, throw. Their
  messages are the engine's, here without its quotation marks.
\<close>

definition typeErrorUndefined :: error where
  "typeErrorUndefined = Thrown (Message ''Cannot read properties of undefined (reading message)'')"

definition typeErrorNull :: error where
  "typeErrorNull = Thrown (Message ''Cannot read properties of null (reading message)'')"

definition typeErrorIncludes :: error where
  "typeErrorIncludes = Thrown (Message ''error.message.includes is not a function'')"

text \<open>
  \<^verbatim>\<open>handleSerpQueryError\<close> writes to the console, or throws: the test
  \<^verbatim>\<open>error.message && error.message.includes("Timeout")\<close> reads a property of
  \<^verbatim>\<open>error\<close>, which throws when \<^verbatim>\<open>error\<close> is \<^verbatim>\<open>undefined\<close> or \<^verbatim>\<open>null\<close>, and
  calls \<^verbatim>\<open>includes\<close> on a truthy message, which throws when there is no such method.
  An empty message is falsy, as a missing one is.
\<close>

fun handleSerpQueryError :: "error \<Rightarrow> string \<Rightarrow> error + event list" where
  "handleSerpQueryError ThrownUndefined q = Inl typeErrorUndefined"
| "handleSerpQueryError ThrownNull q = Inl typeErrorNull"
| "handleSerpQueryError (Thrown NoMessage) q = Inr [LogQueryError q (Thrown NoMessage)]"
| "handleSerpQueryError (Thrown (Message s)) q =
     (if s \<noteq> [] \<and> str_includes s ''Timeout''
      then Inr [LogTimeoutError q (Thrown (Message s))]
      else Inr [LogQueryError q (Thrown (Message s))])"
| "handleSerpQueryError (Thrown OddMessage) q = Inl typeErrorIncludes"

text \<open>
  \<^verbatim>\<open>generateSerpQueries\<close>; \<^verbatim>\<open>deepResearch\<close>, its only caller, always passes
  \<^verbatim>\<open>numQueries\<close> and \<^verbatim>\<open>learnings\<close>.
\<close>

definition generateSerpQueries ::
  "'w env \<Rightarrow> 'w \<Rightarrow> string \<Rightarrow> int \<Rightarrow> string list
    \<Rightarrow> (error + SerpQuery list) \<times> 'w \<times> event list" where
  "generateSerpQueries env w q numQueries ls =
     (case generateQueries env w q numQueries ls of
        (Inl e, w') \<Rightarrow> (Inl e, w', [GenerateQueries q numQueries ls])
      | (Inr queries, w') \<Rightarrow>
          (Inr (slice0 queries numQueries), w',
           [GenerateQueries q numQueries ls, LogCreatedQueries (length queries)]))"

text \<open>
  \<^verbatim>\<open>extractAndTrimSerpContent\<close>. A call of \<open>trimPrompt\<close> that never returns is, in
  JavaScript, a recursion that exhausts the call stack: it throws.
\<close>

definition extractAndTrimSerpContent :: "'w env \<Rightarrow> SearchResponse \<Rightarrow> string list option" where
  "extractAndTrimSerpContent env result =
     those (map (\<lambda>content. trimPrompt (countTokens env) (splitText env) content 25000)
       (compact (map markdown (data result))))"

definition stackOverflow :: error where
  "stackOverflow = Thrown (Message ''Maximum call stack size exceeded'')"

text \<open>
  \<^verbatim>\<open>processSerpResult\<close>; its only caller passes \<^verbatim>\<open>numFollowUpQuestions\<close> and leaves
  \<^verbatim>\<open>numLearnings\<close> to its default, 3.
\<close>

definition processSerpResult ::
  "'w env \<Rightarrow> 'w \<Rightarrow> string \<Rightarrow> SearchResponse \<Rightarrow> int
    \<Rightarrow> (error + SerpAnalysisResult) \<times> 'w \<times> event list" where
  "processSerpResult env w q result numFollowUpQuestions =
     (case extractAndTrimSerpContent env result of
        None \<Rightarrow> (Inl stackOverflow, w, [])
      | Some contents \<Rightarrow>
          (case generateAnalysis env w q contents 3 numFollowUpQuestions of
             (Inl e, w') \<Rightarrow>
               (Inl e, w',
                [LogRan q (length contents), GenerateAnalysis q contents 3 numFollowUpQuestions])
           | (Inr res, w') \<Rightarrow>
               (Inr res, w',
                [LogRan q (length contents), GenerateAnalysis q contents 3 numFollowUpQuestions,
                 LogCreatedLearnings (length (analysisLearnings res))])))"

text \<open>The value returned by \<^verbatim>\<open>deepResearch\<close> from the results of its branches.\<close>

definition aggregate :: "ResearchResult list \<Rightarrow> ResearchResult" where
  "aggregate results =
     \<lparr>learnings = newSet (concat (map learnings results)),
      visitedUrls = newSet (concat (map visitedUrls results))\<rparr>"

text \<open>
  \<^verbatim>\<open>deepResearch\<close> and \<^verbatim>\<open>processSingleSerpQuery\<close>, which call each other.
  \<^item> \<open>runSerpQueries\<close> is \<^verbatim>\<open>Promise.all(serpQueries.map(q => limit(() => ...)))\<close> with
    \<^verbatim>\<open>ConcurrencyLimit = 1\<close>: the branches run one at a time, in the order of the
    queries, and the results are collected; it rejects with the first rejection of a
    branch, at that moment.
  \<^item> \<open>tryProcessSingleSerpQuery\<close> is the \<^verbatim>\<open>try\<close> block of
    \<^verbatim>\<open>processSingleSerpQuery\<close>, and \<open>processSingleSerpQuery\<close> adds its \<^verbatim>\<open>catch\<close>,
    which rejects when \<^verbatim>\<open>handleSerpQueryError\<close> throws.
  \<^item> \<^verbatim>\<open>Math.ceil(breadth / 2)\<close> is the ceiling of the real quotient.
\<close>

function
  deepResearch ::
    "'w env \<Rightarrow> 'w \<Rightarrow> string \<Rightarrow> int \<Rightarrow> int \<Rightarrow> string list \<Rightarrow> string list
      \<Rightarrow> (error + ResearchResult) \<times> 'w \<times> event list"
and runSerpQueries ::
    "'w env \<Rightarrow> 'w \<Rightarrow> SerpQuery list \<Rightarrow> int \<Rightarrow> int \<Rightarrow> string list \<Rightarrow> string list
      \<Rightarrow> (error + ResearchResult list) \<times> 'w \<times> event list"
and processSingleSerpQuery ::
    "'w env \<Rightarrow> 'w \<Rightarrow> SerpQuery \<Rightarrow> int \<Rightarrow> int \<Rightarrow> string list \<Rightarrow> string list
      \<Rightarrow> (error + ResearchResult) \<times> 'w \<times> event list"
and tryProcessSingleSerpQuery ::
    "'w env \<Rightarrow> 'w \<Rightarrow> SerpQuery \<Rightarrow> int \<Rightarrow> int \<Rightarrow> string list \<Rightarrow> string list
      \<Rightarrow> (error + ResearchResult) \<times> 'w \<times> event list"
where
  "deepResearch env w q breadth depth ls vs =
     (case generateSerpQueries env w q breadth ls of
        (Inl e, w1, t1) \<Rightarrow> (Inl e, w1, t1)
      | (Inr serpQueries, w1, t1) \<Rightarrow>
          (case runSerpQueries env w1 serpQueries breadth depth ls vs of
             (Inl e, w2, t2) \<Rightarrow> (Inl e, w2, t1 @ t2)
           | (Inr results, w2, t2) \<Rightarrow> (Inr (aggregate results), w2, t1 @ t2)))"
| "runSerpQueries env w [] breadth depth ls vs = (Inr [], w, [])"
| "runSerpQueries env w (serpQuery # rest) breadth depth ls vs =
     (case processSingleSerpQuery env w serpQuery breadth depth ls vs of
        (Inl e, w1, t1) \<Rightarrow> (Inl e, w1, t1)
      | (Inr r, w1, t1) \<Rightarrow>
          (case runSerpQueries env w1 rest breadth depth ls vs of
             (Inl e, w2, t2) \<Rightarrow> (Inl e, w2, t1 @ t2)
           | (Inr rs, w2, t2) \<Rightarrow> (Inr (r # rs), w2, t1 @ t2)))"
| "processSingleSerpQuery env w serpQuery breadth depth ls vs =
     (case tryProcessSingleSerpQuery env w serpQuery breadth depth ls vs of
        (Inr r, w1, t1) \<Rightarrow> (Inr r, w1, t1)
      | (Inl e, w1, t1) \<Rightarrow>
          (case handleSerpQueryError e (query serpQuery) of
             Inl thrown \<Rightarrow> (Inl thrown, w1, t1)
           | Inr logged \<Rightarrow> (Inr \<lparr>learnings = [], visitedUrls = []\<rparr>, w1, t1 @ logged)))"
| "tryProcessSingleSerpQuery env w serpQuery breadth depth ls vs =
     (case fetchSerpResults env w (query serpQuery) of
        (Inl e, w1, t1) \<Rightarrow> (Inl e, w1, t1)
      | (Inr result, w1, t1) \<Rightarrow>
          (let newUrls = extractUrlsFromResult result;
               newBreadth = \<lceil>real_of_int breadth / 2\<rceil>;
               newDepth = depth - 1
           in case processSerpResult env w1 (query serpQuery) result newBreadth of
                (Inl e, w2, t2) \<Rightarrow> (Inl e, w2, t1 @ t2)
              | (Inr newLearnings, w2, t2) \<Rightarrow>
                  (let allLearnings = ls @ analysisLearnings newLearnings;
                       allUrls = vs @ newUrls
                   in if newDepth > 0
                      then
                        (let nextQuery = generateNextResearchQuery (researchGoal serpQuery)
                                           (followUpQuestions newLearnings)
                         in case deepResearch env w2 nextQuery newBreadth newDepth
                                   allLearnings allUrls of
                              (r, w3, t3) \<Rightarrow>
                                (r, w3,
                                 t1 @ t2 @
                                 [LogResearchingDeeper newBreadth newDepth,
                                  DeepResearchCall nextQuery newBreadth newDepth
                                    allLearnings allUrls t3]))
                      else (Inr \<lparr>learnings = allLearnings, visitedUrls = allUrls\<rparr>, w2,
                            t1 @ t2))))"
  by pat_completeness auto
termination
  by (relation "measures
        [\<lambda>x. case x of
            Inl (Inl (env, w, q, b, d, ls, vs)) \<Rightarrow> nat d
          | Inl (Inr (env, w, sqs, b, d, ls, vs)) \<Rightarrow> nat d
          | Inr (Inl (env, w, sq, b, d, ls, vs)) \<Rightarrow> nat d
          | Inr (Inr (env, w, sq, b, d, ls, vs)) \<Rightarrow> nat d,
         \<lambda>x. case x of
            Inl (Inl _) \<Rightarrow> 3
          | Inl (Inr _) \<Rightarrow> 2
          | Inr (Inl _) \<Rightarrow> 1
          | Inr (Inr _) \<Rightarrow> 0,
         \<lambda>x. case x of
            Inl (Inr (env, w, sqs, b, d, ls, vs)) \<Rightarrow> length sqs
          | _ \<Rightarrow> 0]") auto

declare deepResearch.simps [simp del]
declare processSingleSerpQuery.simps [simp del]
declare tryProcessSingleSerpQuery.simps [simp del]

subsection \<open>Reading a list of effects\<close>

text \<open>
  The nested calls of \<^verbatim>\<open>deepResearch\<close> made directly by the code that produced the
  effects, with their arguments (query, breadth, depth, learnings, visited URLs).
\<close>

fun callOf :: "event \<Rightarrow> (string \<times> int \<times> int \<times> string list \<times> string list) list" where
  "callOf (DeepResearchCall q b d ls vs sub) = [(q, b, d, ls, vs)]"
| "callOf _ = []"

definition recursiveCalls ::
  "event list \<Rightarrow> (string \<times> int \<times> int \<times> string list \<times> string list) list" where
  "recursiveCalls tr = concat (map callOf tr)"

text \<open>
  The calls of the query planner among the effects, those of nested calls included, in
  order, with what the planner was given (query, number of queries, learnings). Only
  \<^verbatim>\<open>deepResearch\<close> calls the planner, once, before anything else: each planner call
  is one run of \<^verbatim>\<open>deepResearch\<close>.
\<close>

fun effectsOf :: "event \<Rightarrow> event list" where
  "effectsOf (DeepResearchCall q b d ls vs sub) = concat (map effectsOf sub)"
| "effectsOf (Sleep n) = [Sleep n]"
| "effectsOf (FirecrawlSearch q) = [FirecrawlSearch q]"
| "effectsOf (GenerateQueries q n ls) = [GenerateQueries q n ls]"
| "effectsOf (GenerateAnalysis q cs n m) = [GenerateAnalysis q cs n m]"
| "effectsOf (LogCreatedQueries n) = [LogCreatedQueries n]"
| "effectsOf (LogRan q n) = [LogRan q n]"
| "effectsOf (LogCreatedLearnings n) = [LogCreatedLearnings n]"
| "effectsOf (LogResearchingDeeper b d) = [LogResearchingDeeper b d]"
| "effectsOf (LogTimeoutError q e) = [LogTimeoutError q e]"
| "effectsOf (LogQueryError q e) = [LogQueryError q e]"

fun plannerCallOf :: "event \<Rightarrow> (string \<times> int \<times> string list) list" where
  "plannerCallOf (GenerateQueries q n ls) = [(q, n, ls)]"
| "plannerCallOf _ = []"

definition plannerCalls :: "event list \<Rightarrow> (string \<times> int \<times> string list) list" where
  "plannerCalls tr = concat (map plannerCallOf (concat (map effectsOf tr)))"

text \<open>
  Breadth decay over a whole call tree: an effect of code running with breadth \<open>b\<close>
  satisfies it when, if it is a nested call, the call was given the breadth
  \<open>\<lceil>b / 2\<rceil>\<close>, that breadth is at least 1, the first effect of the nested call is its
  planner call, asked for that many queries on the query and the learnings the call was
  given, and the effects of the nested call satisfy it for the new breadth.
\<close>

fun breadthHalved :: "int \<Rightarrow> event \<Rightarrow> bool" where
  "breadthHalved b (DeepResearchCall q b' d ls vs sub) =
     (b' = \<lceil>real_of_int b / 2\<rceil> \<and> 1 \<le> b' \<and> take 1 sub = [GenerateQueries q b' ls]
      \<and> list_all (breadthHalved b') sub)"
| "breadthHalved b _ = True"


subsection \<open>A small world to run the orchestrator in\<close>

definition alphaQuery :: SerpQuery where
  "alphaQuery = \<lparr>query = ''alpha'', researchGoal = ''study alpha''\<rparr>"

definition betaQuery :: SerpQuery where
  "betaQuery = \<lparr>query = ''beta'', researchGoal = ''study beta''\<rparr>"

definition gammaQuery :: SerpQuery where
  "gammaQuery = \<lparr>query = ''gamma'', researchGoal = ''unplannable''\<rparr>"

definition deltaQuery :: SerpQuery where
  "deltaQuery = \<lparr>query = ''delta'', researchGoal = ''study delta''\<rparr>"

definition omegaQuery :: SerpQuery where
  "omegaQuery = \<lparr>query = ''omega'', researchGoal = ''study omega''\<rparr>"

text \<open>A search response of one page, and the analysis of a query.\<close>

definition pageOf :: "string \<Rightarrow> SearchResponse" where
  "pageOf q = \<lparr>data = [\<lparr>url = Some (''http://'' @ q), markdown = Some (''about '' @ q)\<rparr>]\<rparr>"

definition analysisOf :: "string \<Rightarrow> SerpAnalysisResult" where
  "analysisOf q = \<lparr>analysisLearnings = [''learned '' @ q], followUpQuestions = []\<rparr>"

text \<open>
  The world is a counter of remote calls. The planner fails on a query that contains
  \<open>unplannable\<close>, returns no query for \<open>nothing\<close>, only the first query for \<open>alpha only\<close>,
  the queries \<open>beta\<close> and \<open>omega\<close> for \<open>omega last\<close>, and three queries otherwise. The
  search for \<open>alpha\<close> times out, the search for \<open>omega\<close> is rejected with
  \<^verbatim>\<open>undefined\<close>, and any other search returns one small page. The analyzer fails on
  \<open>delta\<close>, and otherwise returns one learning and no follow-up question.
\<close>

definition demoEnv :: "nat env" where
  "demoEnv =
     \<lparr>generateQueries = (\<lambda>w q n ls.
        (if str_includes q ''unplannable'' then Inl (Thrown (Message ''no plan''))
         else if q = ''nothing'' then Inr []
         else if q = ''alpha only'' then Inr [alphaQuery]
         else if q = ''omega last'' then Inr [betaQuery, omegaQuery]
         else Inr [alphaQuery, betaQuery, gammaQuery], Suc w)),
      firecrawlSearch = (\<lambda>w q.
        (if q = ''alpha'' then Inl (Thrown (Message ''Timeout after 15000 ms''))
         else if q = ''omega'' then Inl ThrownUndefined
         else Inr (pageOf q), Suc w)),
      generateAnalysis = (\<lambda>w q contents numLearnings numFollowUps.
        (if q = ''delta'' then Inl (Thrown (Message ''schema mismatch''))
         else Inr (analysisOf q), Suc w)),
      countTokens = fourCharTokens,
      splitText = paragraphSplitter\<rparr>"


section \<open>Properties of the trimmer\<close>

lemma splitParagraphs_length: "p \<in> set (splitParagraphs t) \<Longrightarrow> length p \<le> length t"
proof (induction t arbitrary: p rule: splitParagraphs.induct)
  case 1
  then show ?case by simp
next
  case (2 c)
  then show ?case by simp
next
  case (3 a b cs)
  show ?case
  proof (cases "a = CHR 0x0A \<and> b = CHR 0x0A")
    case True
    with 3(3) have "p = [] \<or> p \<in> set (splitParagraphs cs)" by simp
    with 3(1) [OF True] show ?thesis by (auto simp: le_SucI)
  next
    case False
    show ?thesis
    proof (cases "splitParagraphs (b # cs)")
      case Nil
      with False 3(3) show ?thesis by (auto split: if_splits)
    next
      case (Cons x xs)
      with False 3(3) have "p = a # x \<or> p \<in> set xs" by (auto split: if_splits)
      moreover have "length x \<le> length (b # cs)"
        "\<And>y. y \<in> set xs \<Longrightarrow> length y \<le> length (b # cs)"
        using 3(2) [OF False] Cons by simp_all
      ultimately show ?thesis by (auto simp: le_SucI)
    qed
  qed
qed

lemma hardCuts_length: "x \<in> set (hardCuts n s) \<Longrightarrow> length x \<le> length s"
proof (induction n s arbitrary: x rule: hardCuts.induct)
  case (1 n s)
  show ?case
  proof (cases "n = 0 \<or> length s \<le> n")
    case True
    with 1(2) show ?thesis by (simp add: hardCuts.simps [of n s])
  next
    case False
    with 1(2) have "x = take n s \<or> x \<in> set (hardCuts n (drop n s))"
      by (simp add: hardCuts.simps [of n s])
    then show ?thesis
    proof
      assume "x = take n s"
      then show ?thesis by simp
    next
      assume "x \<in> set (hardCuts n (drop n s))"
      from 1(1) [OF False this] show ?thesis by simp
    qed
  qed
qed

lemma paragraphSplitter_chunks:
  assumes "x \<in> set (paragraphSplitter c t)"
  shows "length x \<le> length t"
proof -
  from assms obtain p where p: "p \<in> set (splitParagraphs t)" "x \<in> set (hardCuts (nat c) p)"
    by (auto simp: paragraphSplitter_def)
  from hardCuts_length [OF p(2)] splitParagraphs_length [OF p(1)] show ?thesis by simp
qed

lemma paragraphSplitter_first: "length (firstChunk (paragraphSplitter c t)) \<le> length t"
proof (cases "paragraphSplitter c t")
  case Nil
  then show ?thesis by (simp add: firstChunk_def)
next
  case (Cons x xs)
  then have "x \<in> set (paragraphSplitter c t)" by simp
  from paragraphSplitter_chunks [OF this] Cons show ?thesis by (simp add: firstChunk_def)
qed

lemma trimPrompt_fits: "int (enc t) \<le> k \<Longrightarrow> trimPrompt enc sp t k = Some t"
  by (subst trimPrompt.simps) simp

lemma recursiveInput_None:
  "recursiveInput enc sp p k = None \<Longrightarrow> \<exists>r. trimPrompt enc sp p k = Some r"
  by (subst trimPrompt.simps) (auto simp: recursiveInput_def Let_def split: if_splits)

lemma recursiveInput_Some:
  "recursiveInput enc sp p k = Some p' \<Longrightarrow> trimPrompt enc sp p k = trimPrompt enc sp p' k"
  by (subst trimPrompt.simps) (auto simp: recursiveInput_def Let_def split: if_splits)

lemma recursiveInput_shorter:
  assumes "\<And>c t. length (firstChunk (sp c t)) \<le> length t"
    and "recursiveInput enc sp p k = Some p'"
  shows "length p' < length p"
  using assms(2) assms(1) [of "int (length p) - (int (enc p) - k) * 3" p]
  by (auto simp: recursiveInput_def Let_def slice0_def MinChunkSize_def split: if_splits)

lemma trimPrompt_total:
  assumes "\<And>c t. length (firstChunk (sp c t)) \<le> length t"
  shows "\<exists>r. trimPrompt enc sp p k = Some r"
proof (induction p rule: length_induct)
  case (1 p)
  show ?case
  proof (cases "recursiveInput enc sp p k")
    case None
    then show ?thesis by (rule recursiveInput_None)
  next
    case (Some p')
    then have "length p' < length p" by (rule recursiveInput_shorter [OF assms])
    with 1 have "\<exists>r. trimPrompt enc sp p' k = Some r" by blast
    with recursiveInput_Some [OF Some] show ?thesis by simp
  qed
qed

lemma trimPrompt_short: "length t < 140 \<Longrightarrow> trimPrompt enc sp t k = Some t"
  by (subst trimPrompt.simps) (auto simp: Let_def slice0_def MinChunkSize_def)

lemma trimPrompt_floor_cut:
  assumes "140 \<le> length t"
    and "int (enc t) \<le> k \<or> int (length t) - (int (enc t) - k) * 3 < 140"
  shows "\<exists>r. trimPrompt enc sp t k = Some r \<and> 140 \<le> length r"
  using assms
  by (subst trimPrompt.simps) (auto simp: Let_def slice0_def MinChunkSize_def)

lemma trimPrompt_diverges_aux:
  assumes "trimPrompt enc sp t k = Some y"
  shows "\<not> (enc = fourCharTokens \<and> sp = doublingSplitter \<and> k = 25000 \<and> 100004 \<le> length t)"
proof (rule trimPrompt.raw_induct
    [where P = "\<lambda>enc sp t k y.
       \<not> (enc = fourCharTokens \<and> sp = doublingSplitter \<and> k = 25000 \<and> 100004 \<le> length t)",
     OF _ assms])
  fix f :: "(string \<Rightarrow> nat) \<Rightarrow> (int \<Rightarrow> string \<Rightarrow> string list) \<Rightarrow> string \<Rightarrow> int \<Rightarrow> string option"
  fix enc sp t k y
  assume ih: "\<And>enc sp t k y. f enc sp t k = Some y
    \<Longrightarrow> \<not> (enc = fourCharTokens \<and> sp = doublingSplitter \<and> k = 25000 \<and> 100004 \<le> length t)"
  assume body: "(if t = [] then Some []
      else
        let len = int (enc t) in
        if len \<le> k then Some t
        else
          let overflowTokens = len - k;
              chunkSize = int (length t) - overflowTokens * 3 in
          if chunkSize < MinChunkSize then Some (slice0 t MinChunkSize)
          else
            let trimmedPrompt = firstChunk (sp chunkSize t) in
            if length trimmedPrompt = length t
            then f enc sp (slice0 t chunkSize) k
            else f enc sp trimmedPrompt k) = Some y"
  show "\<not> (enc = fourCharTokens \<and> sp = doublingSplitter \<and> k = 25000 \<and> 100004 \<le> length t)"
  proof
    assume a: "enc = fourCharTokens \<and> sp = doublingSplitter \<and> k = 25000 \<and> 100004 \<le> length t"
    then have "t \<noteq> []" by auto
    with a body have "f enc sp (t @ t) k = Some y"
      by (simp add: fourCharTokens_def doublingSplitter_def firstChunk_def MinChunkSize_def
          Let_def split: if_splits)
    from ih [OF this] a show False by simp
  qed
qed

lemma trimPrompt_diverges:
  "100004 \<le> length t \<Longrightarrow> trimPrompt fourCharTokens doublingSplitter t 25000 = None"
  using trimPrompt_diverges_aux [of fourCharTokens doublingSplitter t 25000]
  by (cases "trimPrompt fourCharTokens doublingSplitter t 25000") auto

lemma headingText_first:
  "firstChunk (paragraphSplitter 152 headingText) = ''Hi.''"
  by (simp add: headingText_def paragraphSplitter_def firstChunk_def
      hardCuts.simps [of _ "''Hi.''"])

lemma titledText_first:
  "firstChunk (paragraphSplitter 179 titledText) = ''Title''"
  by (simp add: titledText_def paragraphSplitter_def firstChunk_def
      hardCuts.simps [of _ "''Title''"])

lemma headingText_length: "length headingText = 605"
  by (simp add: headingText_def)

lemma headingText_nonempty: "headingText \<noteq> []"
  by (simp add: headingText_def)

lemma titledText_length: "length titledText = 707"
  by (simp add: titledText_def)

lemma titledText_nonempty: "titledText \<noteq> []"
  by (simp add: titledText_def)

lemma headingText_trim:
  "trimPrompt fourCharTokens paragraphSplitter headingText 1 = Some ''Hi.''"
proof -
  have "trimPrompt fourCharTokens paragraphSplitter headingText 1
      = trimPrompt fourCharTokens paragraphSplitter ''Hi.'' 1"
    by (subst trimPrompt.simps)
      (simp add: headingText_first headingText_length headingText_nonempty fourCharTokens_def
        MinChunkSize_def Let_def)
  also have "\<dots> = Some ''Hi.''"
    by (rule trimPrompt_short) simp
  finally show ?thesis .
qed

lemma trimPrompt_hard_floor:
  assumes "140 \<le> length t" and "k < int (enc t)"
    and "int (length t) - (int (enc t) - k) * 3 < 140"
  shows "trimPrompt enc sp t k = Some (take 140 t)"
  using assms
  by (subst trimPrompt.simps) (auto simp: Let_def slice0_def MinChunkSize_def)

lemma trimPrompt_step:
  assumes "k < int (enc t)" and "140 \<le> int (length t) - (int (enc t) - k) * 3"
  shows "trimPrompt enc sp t k
    = trimPrompt enc sp
        (if length (firstChunk (sp (int (length t) - (int (enc t) - k) * 3) t)) = length t
         then slice0 t (int (length t) - (int (enc t) - k) * 3)
         else firstChunk (sp (int (length t) - (int (enc t) - k) * 3) t)) k"
proof -
  from assms have "t \<noteq> []" by auto
  with assms show ?thesis
    by (subst trimPrompt.simps) (simp add: Let_def MinChunkSize_def)
qed

lemma recursiveInput_floor:
  assumes "\<And>c s. 140 \<le> c \<Longrightarrow> 140 \<le> length s \<Longrightarrow> 140 \<le> length (firstChunk (sp c s))"
    and "140 \<le> length p"
    and "recursiveInput enc sp p k = Some p'"
  shows "140 \<le> length p'"
proof -
  let ?c = "int (length p) - (int (enc p) - k) * 3"
  from assms(3) have over: "k < int (enc p)" and c: "140 \<le> ?c"
    by (auto simp: recursiveInput_def Let_def MinChunkSize_def split: if_splits)
  from assms(3) over c have "p' = slice0 p ?c \<or> p' = firstChunk (sp ?c p)"
    by (auto simp: recursiveInput_def Let_def MinChunkSize_def split: if_splits)
  then show ?thesis
  proof
    assume "p' = slice0 p ?c"
    with c assms(2) show ?thesis by (simp add: slice0_def)
  next
    assume "p' = firstChunk (sp ?c p)"
    with assms(1) [OF c assms(2)] show ?thesis by simp
  qed
qed

lemma recursiveInput_None_floor:
  assumes "recursiveInput enc sp p k = None" and "140 \<le> length p"
  shows "\<exists>r. trimPrompt enc sp p k = Some r \<and> 140 \<le> length r"
proof (rule trimPrompt_floor_cut [OF assms(2)])
  from assms show "int (enc p) \<le> k \<or> int (length p) - (int (enc p) - k) * 3 < 140"
    by (auto simp: recursiveInput_def Let_def MinChunkSize_def split: if_splits)
qed

lemma trimPrompt_floor_kept:
  assumes pieces: "\<And>c s. length (firstChunk (sp c s)) \<le> length s"
    and floor: "\<And>c s. 140 \<le> c \<Longrightarrow> 140 \<le> length s \<Longrightarrow> 140 \<le> length (firstChunk (sp c s))"
  shows "140 \<le> length p \<Longrightarrow> \<exists>r. trimPrompt enc sp p k = Some r \<and> 140 \<le> length r"
proof (induction p rule: length_induct)
  case (1 p)
  show ?case
  proof (cases "recursiveInput enc sp p k")
    case None
    from recursiveInput_None_floor [OF None "1.prems"] show ?thesis .
  next
    case (Some p')
    from recursiveInput_shorter [OF pieces Some] have "length p' < length p" .
    moreover from recursiveInput_floor [OF floor "1.prems" Some] have "140 \<le> length p'" .
    ultimately have "\<exists>r. trimPrompt enc sp p' k = Some r \<and> 140 \<le> length r"
      using "1.IH" by blast
    with recursiveInput_Some [OF Some] show ?thesis by simp
  qed
qed

lemma rawSplitter_first: "firstChunk (rawSplitter c s) = (if c \<le> 0 then s else take (nat c) s)"
  by (simp add: rawSplitter_def firstChunk_def hardCuts.simps [of "nat c" s])

lemma rawSplitter_pieces: "splitsIntoPieces rawSplitter"
  by (simp add: splitsIntoPieces_def rawSplitter_first)

lemma rawSplitter_floor:
  "140 \<le> c \<Longrightarrow> 140 \<le> length s \<Longrightarrow> 140 \<le> length (firstChunk (rawSplitter c s))"
  by (simp add: rawSplitter_first)

text \<open>
  C3, as stated, fails. With a budget of one token, the text \<open>headingText\<close> (605
  characters) is over the budget and its target length is 152, so the splitter is asked;
  its first chunk is the heading \<open>Hi.\<close>, and trimming that returns it: three
  characters, from a text of more than 140.
\<close>

theorem trimPrompt_floor_counterexample:
  "(1::int) \<le> 1 \<and> 140 \<le> length headingText
   \<and> trimPrompt fourCharTokens paragraphSplitter headingText 1 = Some ''Hi.''
   \<and> length ''Hi.'' < 140"
  by (simp add: headingText_trim headingText_length)

text \<open>
  C3, amended. For every text \<open>t\<close>, budget \<open>k\<close>, tokenizer and splitter:
  \<^item> a text shorter than 140 characters, or within the budget, is returned as it is;
  \<^item> a text of at least 140 characters that is over the budget and whose target length
    (its length minus three times the overflow in tokens) is below 140 gives its first
    140 characters;
  \<^item> otherwise the splitter is asked for chunks of the target length, and the result is
    the trimming of its first chunk, or, when that chunk is as long as the text, of the
    first target-length characters of the text;
  \<^item> if the first chunk of the splitter is never longer than the text it was given, the
    trimmer returns;
  \<^item> if moreover the first chunk has at least 140 characters whenever the chunk size
    asked for and the text have, the result of a text of at least 140 characters has at
    least 140 characters.

  The floor of 140 is a floor on the chunk size asked of the splitter; a splitter that
  returns a shorter first chunk, as \<open>paragraphSplitter\<close> does above, gives a shorter
  result.
\<close>

theorem trimPrompt_floor:
  "(length t < 140 \<or> int (enc t) \<le> k \<longrightarrow> trimPrompt enc sp t k = Some t)
   \<and> (140 \<le> length t \<and> k < int (enc t) \<and> int (length t) - (int (enc t) - k) * 3 < 140
        \<longrightarrow> trimPrompt enc sp t k = Some (take 140 t))
   \<and> (k < int (enc t) \<and> 140 \<le> int (length t) - (int (enc t) - k) * 3
        \<longrightarrow> trimPrompt enc sp t k
            = trimPrompt enc sp
                (if length (firstChunk (sp (int (length t) - (int (enc t) - k) * 3) t)) = length t
                 then slice0 t (int (length t) - (int (enc t) - k) * 3)
                 else firstChunk (sp (int (length t) - (int (enc t) - k) * 3) t)) k)
   \<and> (splitsIntoPieces sp \<longrightarrow> (\<exists>r. trimPrompt enc sp t k = Some r))
   \<and> (splitsIntoPieces sp
        \<and> (\<forall>c s. 140 \<le> c \<and> 140 \<le> length s \<longrightarrow> 140 \<le> length (firstChunk (sp c s)))
        \<and> 140 \<le> length t
        \<longrightarrow> (\<exists>r. trimPrompt enc sp t k = Some r \<and> 140 \<le> length r))"
proof (intro conjI impI)
  assume "length t < 140 \<or> int (enc t) \<le> k"
  then show "trimPrompt enc sp t k = Some t"
    using trimPrompt_short [of t enc sp k] trimPrompt_fits [of enc t k sp] by blast
next
  assume "140 \<le> length t \<and> k < int (enc t) \<and> int (length t) - (int (enc t) - k) * 3 < 140"
  then show "trimPrompt enc sp t k = Some (take 140 t)"
    by (intro trimPrompt_hard_floor) simp_all
next
  assume "k < int (enc t) \<and> 140 \<le> int (length t) - (int (enc t) - k) * 3"
  then show "trimPrompt enc sp t k
    = trimPrompt enc sp
        (if length (firstChunk (sp (int (length t) - (int (enc t) - k) * 3) t)) = length t
         then slice0 t (int (length t) - (int (enc t) - k) * 3)
         else firstChunk (sp (int (length t) - (int (enc t) - k) * 3) t)) k"
    by (intro trimPrompt_step) simp_all
next
  assume "splitsIntoPieces sp"
  then show "\<exists>r. trimPrompt enc sp t k = Some r"
    by (intro trimPrompt_total) (simp add: splitsIntoPieces_def)
next
  assume a: "splitsIntoPieces sp
    \<and> (\<forall>c s. 140 \<le> c \<and> 140 \<le> length s \<longrightarrow> 140 \<le> length (firstChunk (sp c s)))
    \<and> 140 \<le> length t"
  show "\<exists>r. trimPrompt enc sp t k = Some r \<and> 140 \<le> length r"
  proof (rule trimPrompt_floor_kept)
    fix c s
    from a show "length (firstChunk (sp c s)) \<le> length s" by (simp add: splitsIntoPieces_def)
  next
    fix c :: int and s :: string
    assume "140 \<le> c" and "140 \<le> length s"
    with a show "140 \<le> length (firstChunk (sp c s))" by blast
  next
    from a show "140 \<le> length t" by simp
  qed
qed

theorem trimPrompt_floor_witness:
  "length ''abcdefgh'' < 140
   \<and> trimPrompt fourCharTokens paragraphSplitter ''abcdefgh'' 1 = Some ''abcdefgh''
   \<and> 140 \<le> length (replicate 200 CHR ''a'')
   \<and> 1 < int (fourCharTokens (replicate 200 CHR ''a''))
   \<and> int (length (replicate 200 CHR ''a'')) - (int (fourCharTokens (replicate 200 CHR ''a'')) - 1) * 3 < 140
   \<and> trimPrompt fourCharTokens paragraphSplitter (replicate 200 CHR ''a'') 1
       = Some (replicate 140 CHR ''a'')
   \<and> 1 < int (fourCharTokens headingText)
   \<and> int (length headingText) - (int (fourCharTokens headingText) - 1) * 3 = 152
   \<and> firstChunk (paragraphSplitter 152 headingText) = ''Hi.''
   \<and> trimPrompt fourCharTokens paragraphSplitter headingText 1
       = trimPrompt fourCharTokens paragraphSplitter ''Hi.'' 1
   \<and> splitsIntoPieces paragraphSplitter
   \<and> (\<exists>r. trimPrompt fourCharTokens paragraphSplitter headingText 1 = Some r)
   \<and> splitsIntoPieces rawSplitter
   \<and> 140 \<le> length (replicate 700 CHR ''c'')
   \<and> (\<exists>r. trimPrompt fourCharTokens rawSplitter (replicate 700 CHR ''c'') 1 = Some r
          \<and> 140 \<le> length r)"
proof -
  have floor: "\<forall>c s. 140 \<le> c \<and> 140 \<le> length s \<longrightarrow> 140 \<le> length (firstChunk (rawSplitter c s))"
    by (simp add: rawSplitter_floor)
  have h: "int (length headingText) - (int (fourCharTokens headingText) - 1) * 3 = 152"
    by (simp add: headingText_length fourCharTokens_def)
  from trimPrompt_floor [of "''abcdefgh''" fourCharTokens 1 paragraphSplitter]
  have a: "trimPrompt fourCharTokens paragraphSplitter ''abcdefgh'' 1 = Some ''abcdefgh''"
    by simp
  from trimPrompt_floor [of "replicate 200 CHR ''a''" fourCharTokens 1 paragraphSplitter]
  have b: "trimPrompt fourCharTokens paragraphSplitter (replicate 200 CHR ''a'') 1
       = Some (replicate 140 CHR ''a'')"
    by (simp add: fourCharTokens_def)
  from trimPrompt_floor [of headingText fourCharTokens 1 paragraphSplitter] h
  have c: "trimPrompt fourCharTokens paragraphSplitter headingText 1
       = trimPrompt fourCharTokens paragraphSplitter ''Hi.'' 1"
    by (simp add: headingText_first headingText_length fourCharTokens_def)
  from trimPrompt_floor [of "replicate 700 CHR ''c''" fourCharTokens 1 rawSplitter]
    rawSplitter_pieces floor
  have d: "\<exists>r. trimPrompt fourCharTokens rawSplitter (replicate 700 CHR ''c'') 1 = Some r
          \<and> 140 \<le> length r"
    by simp
  have sp: "splitsIntoPieces paragraphSplitter"
    by (simp add: splitsIntoPieces_def paragraphSplitter_first)
  from trimPrompt_floor [of headingText fourCharTokens 1 paragraphSplitter] sp
  have e: "\<exists>r. trimPrompt fourCharTokens paragraphSplitter headingText 1 = Some r"
    by blast
  from a b c d e h sp rawSplitter_pieces show ?thesis
    by (simp add: headingText_first headingText_length fourCharTokens_def)
qed

lemma titledText_recursiveInput:
  "recursiveInput fourCharTokens paragraphSplitter titledText 1 = Some ''Title''"
  by (simp add: recursiveInput_def titledText_first titledText_length titledText_nonempty
      fourCharTokens_def MinChunkSize_def Let_def)

lemma unsplit_recursiveInput:
  "recursiveInput fourCharTokens (\<lambda>c t. [t]) (replicate 700 CHR ''c'') 1
     = Some (replicate 178 CHR ''c'')"
  by (simp add: recursiveInput_def fourCharTokens_def MinChunkSize_def Let_def firstChunk_def
      slice0_def)

text \<open>
  C5. When the first chunk has the length of the input, the hard cut makes the recursive
  call's input strictly shorter, whatever the splitter. When the splitter splits into
  pieces (its first chunk is never longer than the text it was given),
  \<open>trimPrompt\<close> returns on every text and every budget, and every recursive call
  is on a strictly shorter input.
\<close>

theorem trimPrompt_terminates:
  "(\<forall>t'. recursiveInput enc sp t k = Some t'
          \<and> length (firstChunk (sp (int (length t) - (int (enc t) - k) * 3) t)) = length t
        \<longrightarrow> length t' < length t)
   \<and> (splitsIntoPieces sp
        \<longrightarrow> (\<exists>r. trimPrompt enc sp t k = Some r)
          \<and> (\<forall>t'. recursiveInput enc sp t k = Some t'
                \<longrightarrow> length t' < length t
                  \<and> trimPrompt enc sp t k = trimPrompt enc sp t' k))"
proof (intro conjI allI impI)
  fix t'
  assume "recursiveInput enc sp t k = Some t'
    \<and> length (firstChunk (sp (int (length t) - (int (enc t) - k) * 3) t)) = length t"
  then show "length t' < length t"
    by (auto simp: recursiveInput_def Let_def slice0_def MinChunkSize_def split: if_splits)
next
  assume "splitsIntoPieces sp"
  then show "\<exists>r. trimPrompt enc sp t k = Some r"
    by (intro trimPrompt_total) (simp add: splitsIntoPieces_def)
next
  fix t'
  assume "splitsIntoPieces sp"
    and "recursiveInput enc sp t k = Some t'"
  then show "length t' < length t"
    by (intro recursiveInput_shorter [of sp enc t k t']) (simp_all add: splitsIntoPieces_def)
next
  fix t'
  assume "recursiveInput enc sp t k = Some t'"
  then show "trimPrompt enc sp t k = trimPrompt enc sp t' k"
    by (rule recursiveInput_Some)
qed

theorem trimPrompt_terminates_witness:
  "recursiveInput fourCharTokens (\<lambda>c t. [t]) (replicate 700 CHR ''c'') 1
     = Some (replicate 178 CHR ''c'')
   \<and> length (replicate 178 CHR ''c'') < length (replicate 700 CHR ''c'')
   \<and> splitsIntoPieces paragraphSplitter
   \<and> (\<exists>r. trimPrompt fourCharTokens paragraphSplitter titledText 1 = Some r)
   \<and> recursiveInput fourCharTokens paragraphSplitter titledText 1 = Some ''Title''
   \<and> length ''Title'' < length titledText
   \<and> trimPrompt fourCharTokens paragraphSplitter titledText 1
       = trimPrompt fourCharTokens paragraphSplitter ''Title'' 1"
proof -
  have sp: "splitsIntoPieces paragraphSplitter"
    by (simp add: splitsIntoPieces_def paragraphSplitter_first)
  note a = trimPrompt_terminates [of fourCharTokens "\<lambda>c t. [t]" "replicate 700 CHR ''c''" 1]
  note b = trimPrompt_terminates [of fourCharTokens paragraphSplitter titledText 1]
  from a have "length (replicate 178 CHR ''c'') < length (replicate 700 CHR ''c'')"
    by (simp add: unsplit_recursiveInput)
  moreover from b sp have "\<exists>r. trimPrompt fourCharTokens paragraphSplitter titledText 1 = Some r"
    by blast
  moreover from b sp titledText_recursiveInput
  have "length ''Title'' < length titledText
    \<and> trimPrompt fourCharTokens paragraphSplitter titledText 1
       = trimPrompt fourCharTokens paragraphSplitter ''Title'' 1"
    by blast
  ultimately show ?thesis
    using sp titledText_recursiveInput unsplit_recursiveInput by blast
qed

text \<open>
  C4. A text whose token count is at most the budget is returned exactly as it is; so
  trimming the result again, with the same budget, changes nothing.
\<close>

theorem trimPrompt_within_budget:
  assumes "int (enc t) \<le> k"
  shows "trimPrompt enc sp t k = Some t
    \<and> Option.bind (trimPrompt enc sp t k) (\<lambda>r. trimPrompt enc sp r k) = Some t"
  using assms by (simp add: trimPrompt_fits)

theorem trimPrompt_within_budget_witness:
  "int (fourCharTokens ''short text'') \<le> 128000
   \<and> trimPrompt fourCharTokens paragraphSplitter ''short text'' 128000 = Some ''short text''
   \<and> Option.bind (trimPrompt fourCharTokens paragraphSplitter ''short text'' 128000)
        (\<lambda>r. trimPrompt fourCharTokens paragraphSplitter r 128000) = Some ''short text''"
proof -
  have h: "int (fourCharTokens ''short text'') \<le> 128000"
    by (simp add: fourCharTokens_def)
  from h trimPrompt_within_budget [of fourCharTokens "''short text''" 128000 paragraphSplitter]
  show ?thesis by simp
qed

section \<open>Properties of the orchestrator\<close>

lemma ceil_half: "\<lceil>real_of_int b / 2\<rceil> = (b + 1) div 2"
  by linarith

lemma ceil_half_pos: "1 \<le> b \<Longrightarrow> 1 \<le> \<lceil>real_of_int b / 2\<rceil>"
  by linarith

subsection \<open>The set of a de-duplicated list\<close>

lemma foldl_setAdd_set: "set (foldl setAdd acc xs) = set acc \<union> set xs"
  by (induction xs arbitrary: acc) auto


lemma set_newSet: "set (newSet xs) = set xs"
  by (simp add: newSet_def foldl_setAdd_set)




subsection \<open>Effects\<close>

lemma recursiveCalls_append: "recursiveCalls (t @ u) = recursiveCalls t @ recursiveCalls u"
  by (simp add: recursiveCalls_def)

lemma plannerCalls_append: "plannerCalls (t @ u) = plannerCalls t @ plannerCalls u"
  by (simp add: plannerCalls_def)

lemma recursiveCalls_Nil: "recursiveCalls [] = []"
  by (simp add: recursiveCalls_def)

lemma plannerCalls_Nil: "plannerCalls [] = []"
  by (simp add: plannerCalls_def)

lemma recursiveCalls_Cons: "recursiveCalls (e # t) = callOf e @ recursiveCalls t"
  by (simp add: recursiveCalls_def)

lemma plannerCalls_Cons:
  "plannerCalls (e # t) = concat (map plannerCallOf (effectsOf e)) @ plannerCalls t"
  by (simp add: plannerCalls_def)

lemma plannerCalls_nested:
  "plannerCalls (DeepResearchCall q b d ls vs sub # t) = plannerCalls sub @ plannerCalls t"
  by (simp add: plannerCalls_def)

lemmas effects_simps =
  recursiveCalls_Nil plannerCalls_Nil recursiveCalls_Cons plannerCalls_Cons
  recursiveCalls_append plannerCalls_append

lemma fetch_eq:
  "firecrawlSearch env w q = (x, w1)
    \<Longrightarrow> fetchSerpResults env w q = (x, w1, [Sleep RATE_LIMIT_MS, FirecrawlSearch q])"
  by (simp add: fetchSerpResults_def)

lemma fetch_effects:
  "snd (snd (fetchSerpResults env w q)) = [Sleep RATE_LIMIT_MS, FirecrawlSearch q]"
  by (simp add: fetchSerpResults_def split: prod.splits)

lemma process_effects_eq:
  "processSerpResult env w q result n = (y, w2, t2)
    \<Longrightarrow> recursiveCalls t2 = [] \<and> plannerCalls t2 = [] \<and> list_all (breadthHalved b) t2"
  by (auto simp: processSerpResult_def recursiveCalls_def plannerCalls_def
      split: option.splits prod.splits sum.splits)

lemma handle_throws:
  "handleSerpQueryError e q = Inl e'
    \<longleftrightarrow> (e = ThrownUndefined \<and> e' = typeErrorUndefined)
      \<or> (e = ThrownNull \<and> e' = typeErrorNull)
      \<or> (e = Thrown OddMessage \<and> e' = typeErrorIncludes)"
proof (cases e)
  case ThrownUndefined
  then show ?thesis by auto
next
  case ThrownNull
  then show ?thesis by auto
next
  case (Thrown m)
  then show ?thesis by (cases m) auto
qed

lemma handle_logs:
  "handleSerpQueryError (Thrown (Message s)) q
    = Inr [if s \<noteq> [] \<and> str_includes s ''Timeout''
           then LogTimeoutError q (Thrown (Message s)) else LogQueryError q (Thrown (Message s))]"
  by simp

lemma handle_effects:
  assumes "handleSerpQueryError e q = Inr logged"
  shows "recursiveCalls logged = [] \<and> plannerCalls logged = []
    \<and> list_all (breadthHalved b) logged"
proof (cases e)
  case ThrownUndefined
  with assms show ?thesis by simp
next
  case ThrownNull
  with assms show ?thesis by simp
next
  case (Thrown m)
  with assms show ?thesis
    by (cases m) (auto simp: recursiveCalls_def plannerCalls_def split: if_splits)
qed

lemma plan_eq:
  "generateQueries env w q n ls = (Inl e, w1)
    \<Longrightarrow> generateSerpQueries env w q n ls = (Inl e, w1, [GenerateQueries q n ls])"
  "generateQueries env w q n ls = (Inr queries, w1)
    \<Longrightarrow> generateSerpQueries env w q n ls
      = (Inr (slice0 queries n), w1, [GenerateQueries q n ls, LogCreatedQueries (length queries)])"
  by (simp_all add: generateSerpQueries_def)

lemma plan_effects_eq:
  "generateSerpQueries env w q n ls = (x, w1, t1)
    \<Longrightarrow> recursiveCalls t1 = [] \<and> plannerCalls t1 = [(q, n, ls)]
      \<and> list_all (breadthHalved b) t1 \<and> take 1 t1 = [GenerateQueries q n ls]"
  by (auto simp: generateSerpQueries_def recursiveCalls_def plannerCalls_def
      split: prod.splits sum.splits)

text \<open>The first effect of \<^verbatim>\<open>deepResearch\<close> is its call of the planner.\<close>

lemma research_starts_with_plan:
  "take 1 (snd (snd (deepResearch env w q b d ls vs))) = [GenerateQueries q b ls]"
proof -
  obtain x w1 t1 where g: "generateSerpQueries env w q b ls = (x, w1, t1)"
    by (cases "generateSerpQueries env w q b ls") auto
  from plan_effects_eq [OF g, of b] have t1: "take 1 t1 = [GenerateQueries q b ls]" by simp
  then have ne: "t1 \<noteq> []" by auto
  with t1 have "\<And>u. take 1 (t1 @ u) = [GenerateQueries q b ls]" by (cases t1) simp_all
  with g t1 show ?thesis
    by (auto simp: deepResearch.simps split: prod.splits sum.splits)
qed

subsection \<open>The outcomes of a branch\<close>

lemma try_search_fails:
  assumes "firecrawlSearch env w (query sq) = (Inl e, w1)"
  shows "tryProcessSingleSerpQuery env w sq b d ls vs
    = (Inl e, w1, [Sleep RATE_LIMIT_MS, FirecrawlSearch (query sq)])"
  by (simp add: tryProcessSingleSerpQuery.simps fetch_eq [OF assms])

lemma try_process_fails:
  assumes "firecrawlSearch env w (query sq) = (Inr result, w1)"
    and "processSerpResult env w1 (query sq) result \<lceil>real_of_int b / 2\<rceil> = (Inl e, w2, t2)"
  shows "tryProcessSingleSerpQuery env w sq b d ls vs
    = (Inl e, w2, [Sleep RATE_LIMIT_MS, FirecrawlSearch (query sq)] @ t2)"
  by (simp add: tryProcessSingleSerpQuery.simps fetch_eq [OF assms(1)] assms(2) Let_def)

lemma try_terminal:
  assumes "firecrawlSearch env w (query sq) = (Inr result, w1)"
    and "processSerpResult env w1 (query sq) result \<lceil>real_of_int b / 2\<rceil> = (Inr a, w2, t2)"
    and "\<not> 0 < d - 1"
  shows "tryProcessSingleSerpQuery env w sq b d ls vs
    = (Inr \<lparr>learnings = ls @ analysisLearnings a,
            visitedUrls = vs @ extractUrlsFromResult result\<rparr>, w2,
       [Sleep RATE_LIMIT_MS, FirecrawlSearch (query sq)] @ t2)"
  using assms(3)
  by (simp add: tryProcessSingleSerpQuery.simps fetch_eq [OF assms(1)] assms(2) Let_def)

lemma try_recurses:
  assumes "firecrawlSearch env w (query sq) = (Inr result, w1)"
    and "processSerpResult env w1 (query sq) result \<lceil>real_of_int b / 2\<rceil> = (Inr a, w2, t2)"
    and "0 < d - 1"
    and "deepResearch env w2
           (generateNextResearchQuery (researchGoal sq) (followUpQuestions a))
           \<lceil>real_of_int b / 2\<rceil> (d - 1)
           (ls @ analysisLearnings a) (vs @ extractUrlsFromResult result) = (r, w3, t3)"
  shows "tryProcessSingleSerpQuery env w sq b d ls vs
    = (r, w3,
       [Sleep RATE_LIMIT_MS, FirecrawlSearch (query sq)] @ t2 @
       [LogResearchingDeeper \<lceil>real_of_int b / 2\<rceil> (d - 1),
        DeepResearchCall (generateNextResearchQuery (researchGoal sq) (followUpQuestions a))
          \<lceil>real_of_int b / 2\<rceil> (d - 1)
          (ls @ analysisLearnings a) (vs @ extractUrlsFromResult result) t3])"
  using assms(3)
  by (simp add: tryProcessSingleSerpQuery.simps fetch_eq [OF assms(1)] assms(2) assms(4) Let_def)

text \<open>The \<^verbatim>\<open>catch\<close>: what the branch makes of the outcome of its \<^verbatim>\<open>try\<close> block.\<close>

lemma catch_returns:
  "tryProcessSingleSerpQuery env w sq b d ls vs = (Inr r, w1, t1)
    \<Longrightarrow> processSingleSerpQuery env w sq b d ls vs = (Inr r, w1, t1)"
  by (simp add: processSingleSerpQuery.simps)

lemma catch_logs:
  "tryProcessSingleSerpQuery env w sq b d ls vs = (Inl e, w1, t1)
    \<Longrightarrow> handleSerpQueryError e (query sq) = Inr logged
    \<Longrightarrow> processSingleSerpQuery env w sq b d ls vs
      = (Inr \<lparr>learnings = [], visitedUrls = []\<rparr>, w1, t1 @ logged)"
  by (simp add: processSingleSerpQuery.simps)

lemma catch_throws:
  "tryProcessSingleSerpQuery env w sq b d ls vs = (Inl e, w1, t1)
    \<Longrightarrow> handleSerpQueryError e (query sq) = Inl thrown
    \<Longrightarrow> processSingleSerpQuery env w sq b d ls vs = (Inl thrown, w1, t1)"
  by (simp add: processSingleSerpQuery.simps)

lemma catch_effects:
  "recursiveCalls (snd (snd (processSingleSerpQuery env w sq b d ls vs)))
     = recursiveCalls (snd (snd (tryProcessSingleSerpQuery env w sq b d ls vs)))"
  "plannerCalls (snd (snd (processSingleSerpQuery env w sq b d ls vs)))
     = plannerCalls (snd (snd (tryProcessSingleSerpQuery env w sq b d ls vs)))"
proof -
  obtain x w1 t1 where t: "tryProcessSingleSerpQuery env w sq b d ls vs = (x, w1, t1)"
    by (cases "tryProcessSingleSerpQuery env w sq b d ls vs") auto
  have "recursiveCalls (snd (snd (processSingleSerpQuery env w sq b d ls vs))) = recursiveCalls t1
    \<and> plannerCalls (snd (snd (processSingleSerpQuery env w sq b d ls vs))) = plannerCalls t1"
  proof (cases x)
    case (Inr r)
    with t show ?thesis by (simp add: catch_returns)
  next
    case (Inl e)
    show ?thesis
    proof (cases "handleSerpQueryError e (query sq)")
      case thrown: (Inl e')
      with t Inl show ?thesis by (simp add: catch_throws)
    next
      case logged: (Inr logged)
      from handle_effects [OF logged, of 1] t Inl logged show ?thesis
        by (simp add: catch_logs recursiveCalls_append plannerCalls_append)
    qed
  qed
  with t show
    "recursiveCalls (snd (snd (processSingleSerpQuery env w sq b d ls vs)))
     = recursiveCalls (snd (snd (tryProcessSingleSerpQuery env w sq b d ls vs)))"
    "plannerCalls (snd (snd (processSingleSerpQuery env w sq b d ls vs)))
     = plannerCalls (snd (snd (tryProcessSingleSerpQuery env w sq b d ls vs)))"
    by simp_all
qed



text \<open>The four ways through the \<^verbatim>\<open>try\<close> block.\<close>

lemma try_cases:
  obtains
    (search_fails) e w1 where "firecrawlSearch env w (query sq) = (Inl e, w1)"
  | (process_fails) result w1 e w2 t2 where
      "firecrawlSearch env w (query sq) = (Inr result, w1)"
      "processSerpResult env w1 (query sq) result \<lceil>real_of_int b / 2\<rceil> = (Inl e, w2, t2)"
  | (terminal) result w1 a w2 t2 where
      "firecrawlSearch env w (query sq) = (Inr result, w1)"
      "processSerpResult env w1 (query sq) result \<lceil>real_of_int b / 2\<rceil> = (Inr a, w2, t2)"
      "\<not> 0 < d - 1"
  | (recurses) result w1 a w2 t2 r w3 t3 where
      "firecrawlSearch env w (query sq) = (Inr result, w1)"
      "processSerpResult env w1 (query sq) result \<lceil>real_of_int b / 2\<rceil> = (Inr a, w2, t2)"
      "0 < d - 1"
      "deepResearch env w2
         (generateNextResearchQuery (researchGoal sq) (followUpQuestions a))
         \<lceil>real_of_int b / 2\<rceil> (d - 1)
         (ls @ analysisLearnings a) (vs @ extractUrlsFromResult result) = (r, w3, t3)"
proof -
  obtain x w1 where f: "firecrawlSearch env w (query sq) = (x, w1)"
    by (cases "firecrawlSearch env w (query sq)") auto
  show ?thesis
  proof (cases x)
    case (Inl e)
    with f search_fails show ?thesis by simp
  next
    case (Inr result)
    obtain y w2 t2 where
      p: "processSerpResult env w1 (query sq) result \<lceil>real_of_int b / 2\<rceil> = (y, w2, t2)"
      by (cases "processSerpResult env w1 (query sq) result \<lceil>real_of_int b / 2\<rceil>") auto
    show ?thesis
    proof (cases y)
      case (Inl e)
      with f Inr p process_fails show ?thesis by simp
    next
      case a: (Inr a)
      show ?thesis
      proof (cases "0 < d - 1")
        case False
        with f Inr p a terminal show ?thesis by simp
      next
        case True
        obtain r w3 t3 where
          "deepResearch env w2
             (generateNextResearchQuery (researchGoal sq) (followUpQuestions a))
             \<lceil>real_of_int b / 2\<rceil> (d - 1)
             (ls @ analysisLearnings a) (vs @ extractUrlsFromResult result) = (r, w3, t3)"
          by (cases "deepResearch env w2
             (generateNextResearchQuery (researchGoal sq) (followUpQuestions a))
             \<lceil>real_of_int b / 2\<rceil> (d - 1)
             (ls @ analysisLearnings a) (vs @ extractUrlsFromResult result)") auto
        with f Inr p a True recurses show ?thesis by simp
      qed
    qed
  qed
qed

text \<open>A branch that does not reach the recursion makes no nested call and no planner call.\<close>

lemma branch_search_fails_calls:
  assumes "firecrawlSearch env w (query sq) = (Inl e, w1)"
  shows "recursiveCalls (snd (snd (processSingleSerpQuery env w sq b d ls vs))) = []
    \<and> plannerCalls (snd (snd (processSingleSerpQuery env w sq b d ls vs))) = []"
  by (simp add: catch_effects try_search_fails [OF assms] effects_simps)

lemma branch_process_fails_calls:
  assumes "firecrawlSearch env w (query sq) = (Inr result, w1)"
    and "processSerpResult env w1 (query sq) result \<lceil>real_of_int b / 2\<rceil> = (Inl e, w2, t2)"
  shows "recursiveCalls (snd (snd (processSingleSerpQuery env w sq b d ls vs))) = []
    \<and> plannerCalls (snd (snd (processSingleSerpQuery env w sq b d ls vs))) = []"
  using process_effects_eq [OF assms(2), of 1]
  by (simp add: catch_effects try_process_fails [OF assms] effects_simps)

lemma branch_terminal_calls:
  assumes "firecrawlSearch env w (query sq) = (Inr result, w1)"
    and "processSerpResult env w1 (query sq) result \<lceil>real_of_int b / 2\<rceil> = (Inr a, w2, t2)"
    and "\<not> 0 < d - 1"
  shows "recursiveCalls (snd (snd (processSingleSerpQuery env w sq b d ls vs))) = []
    \<and> plannerCalls (snd (snd (processSingleSerpQuery env w sq b d ls vs))) = []"
  using process_effects_eq [OF assms(2), of 1]
  by (simp add: catch_effects try_terminal [OF assms] effects_simps)

lemma branch_calls_shallow:
  assumes "\<not> 0 < d - 1"
  shows "recursiveCalls (snd (snd (processSingleSerpQuery env w sq b d ls vs))) = []
    \<and> plannerCalls (snd (snd (processSingleSerpQuery env w sq b d ls vs))) = []"
proof (cases rule: try_cases [where env=env and w=w and sq=sq and b=b and d=d and ls=ls and vs=vs])
  case (search_fails e w1)
  then show ?thesis by (rule branch_search_fails_calls)
next
  case (process_fails result w1 e w2 t2)
  then show ?thesis by (rule branch_process_fails_calls)
next
  case (terminal result w1 a w2 t2)
  then show ?thesis by (rule branch_terminal_calls)
next
  case (recurses result w1 a w2 t2 r w3 t3)
  with assms show ?thesis by simp
qed

lemma branch_calls_deep:
  assumes "firecrawlSearch env w (query sq) = (Inr result, w1)"
    and "processSerpResult env w1 (query sq) result \<lceil>real_of_int b / 2\<rceil> = (Inr a, w2, t2)"
    and "0 < d - 1"
  shows "recursiveCalls (snd (snd (processSingleSerpQuery env w sq b d ls vs)))
    = [(generateNextResearchQuery (researchGoal sq) (followUpQuestions a),
        \<lceil>real_of_int b / 2\<rceil>, d - 1,
        ls @ analysisLearnings a, vs @ extractUrlsFromResult result)]"
    and "plannerCalls (snd (snd (processSingleSerpQuery env w sq b d ls vs)))
    = plannerCalls (snd (snd (deepResearch env w2
        (generateNextResearchQuery (researchGoal sq) (followUpQuestions a))
        \<lceil>real_of_int b / 2\<rceil> (d - 1)
        (ls @ analysisLearnings a) (vs @ extractUrlsFromResult result))))"
proof -
  obtain r w3 t3 where
    dr: "deepResearch env w2
       (generateNextResearchQuery (researchGoal sq) (followUpQuestions a))
       \<lceil>real_of_int b / 2\<rceil> (d - 1)
       (ls @ analysisLearnings a) (vs @ extractUrlsFromResult result) = (r, w3, t3)"
    by (cases "deepResearch env w2
       (generateNextResearchQuery (researchGoal sq) (followUpQuestions a))
       \<lceil>real_of_int b / 2\<rceil> (d - 1)
       (ls @ analysisLearnings a) (vs @ extractUrlsFromResult result)") auto
  from process_effects_eq [OF assms(2), of 1]
  have t2: "recursiveCalls t2 = []" "plannerCalls t2 = []" by simp_all
  from t2 show "recursiveCalls (snd (snd (processSingleSerpQuery env w sq b d ls vs)))
    = [(generateNextResearchQuery (researchGoal sq) (followUpQuestions a),
        \<lceil>real_of_int b / 2\<rceil>, d - 1,
        ls @ analysisLearnings a, vs @ extractUrlsFromResult result)]"
    by (simp add: catch_effects try_recurses [OF assms dr] effects_simps)
  from t2 dr show "plannerCalls (snd (snd (processSingleSerpQuery env w sq b d ls vs)))
    = plannerCalls (snd (snd (deepResearch env w2
        (generateNextResearchQuery (researchGoal sq) (followUpQuestions a))
        \<lceil>real_of_int b / 2\<rceil> (d - 1)
        (ls @ analysisLearnings a) (vs @ extractUrlsFromResult result))))"
    by (simp add: catch_effects try_recurses [OF assms dr] effects_simps)
      (simp add: plannerCalls_def)
qed

text \<open>Every run of \<^verbatim>\<open>deepResearch\<close> calls the planner.\<close>

lemma research_plans:
  "plannerCalls (snd (snd (deepResearch env w q b d ls vs))) \<noteq> []"
proof -
  obtain x w1 t1 where g: "generateSerpQueries env w q b ls = (x, w1, t1)"
    by (cases "generateSerpQueries env w q b ls") auto
  from plan_effects_eq [OF g, of b] have "plannerCalls t1 = [(q, b, ls)]" by simp
  with g show ?thesis
    by (auto simp: deepResearch.simps plannerCalls_append split: prod.splits sum.splits)
qed

lemma run_shallow:
  assumes "\<not> 0 < d - 1"
  shows "recursiveCalls (snd (snd (runSerpQueries env w sqs b d ls vs))) = []
    \<and> plannerCalls (snd (snd (runSerpQueries env w sqs b d ls vs))) = []"
proof (induction sqs arbitrary: w)
  case Nil
  show ?case by (simp add: recursiveCalls_def plannerCalls_def)
next
  case (Cons sq sqs)
  obtain r w1 t1 where p: "processSingleSerpQuery env w sq b d ls vs = (r, w1, t1)"
    by (cases "processSingleSerpQuery env w sq b d ls vs") auto
  with branch_calls_shallow [OF assms, of env w sq b ls vs]
  have "recursiveCalls t1 = []" "plannerCalls t1 = []" by simp_all
  with Cons [of w1] p show ?case
    by (auto simp: recursiveCalls_append plannerCalls_append split: prod.splits sum.splits)
qed

lemma research_shallow:
  assumes "\<not> 0 < d - 1"
  shows "recursiveCalls (snd (snd (deepResearch env w q b d ls vs))) = []
    \<and> plannerCalls (snd (snd (deepResearch env w q b d ls vs))) = [(q, b, ls)]"
proof -
  obtain x w1 t1 where g: "generateSerpQueries env w q b ls = (x, w1, t1)"
    by (cases "generateSerpQueries env w q b ls") auto
  from plan_effects_eq [OF g, of b]
  have t1: "recursiveCalls t1 = []" "plannerCalls t1 = [(q, b, ls)]" by simp_all
  show ?thesis
  proof (cases x)
    case (Inl e)
    with g t1 show ?thesis by (simp add: deepResearch.simps)
  next
    case (Inr sqs)
    with g t1 run_shallow [OF assms, of env w1 sqs b ls vs] show ?thesis
      by (auto simp: deepResearch.simps recursiveCalls_append plannerCalls_append
          split: prod.splits sum.splits)
  qed
qed

lemma aggregate_contains:
  "r \<in> set rs \<Longrightarrow> set (learnings r) \<subseteq> set (learnings (aggregate rs))
     \<and> set (visitedUrls r) \<subseteq> set (visitedUrls (aggregate rs))"
  by (auto simp: aggregate_def set_newSet)

subsection \<open>Invariants of the whole recursion\<close>




lemma nested_call_halved:
  assumes "1 \<le> b'" and "list_all (breadthHalved b') t3"
    and "take 1 t3 = [GenerateQueries q b' ls]"
    and "b' = \<lceil>real_of_int b / 2\<rceil>"
  shows "breadthHalved b (DeepResearchCall q b' d ls vs t3)"
  using assms by simp

lemma breadth_halved_all:
  "1 \<le> b \<Longrightarrow> list_all (breadthHalved b) (snd (snd (deepResearch env w q b d ls vs)))"
  "1 \<le> b \<Longrightarrow> list_all (breadthHalved b) (snd (snd (runSerpQueries env w sqs b d ls vs)))"
  "1 \<le> b \<Longrightarrow> list_all (breadthHalved b) (snd (snd (processSingleSerpQuery env w sq b d ls vs)))"
  "1 \<le> b \<Longrightarrow> list_all (breadthHalved b) (snd (snd (tryProcessSingleSerpQuery env w sq b d ls vs)))"
proof (induct env w q b d ls vs and env w sqs b d ls vs and env w sq b d ls vs
    and env w sq b d ls vs
    rule: deepResearch_runSerpQueries_processSingleSerpQuery_tryProcessSingleSerpQuery.induct)
  case (1 env w q breadth depth ls vs)
  obtain x w1 t1 where g: "generateSerpQueries env w q breadth ls = (x, w1, t1)"
    by (cases "generateSerpQueries env w q breadth ls") auto
  from plan_effects_eq [OF g, of breadth] have t1: "list_all (breadthHalved breadth) t1"
    by simp
  show ?case
  proof (cases x)
    case (Inl e)
    with g t1 show ?thesis by (simp add: deepResearch.simps)
  next
    case (Inr sqs)
    from 1(1) [of x "(w1, t1)" sqs w1 t1] g Inr 1(2)
    have "list_all (breadthHalved breadth)
      (snd (snd (runSerpQueries env w1 sqs breadth depth ls vs)))"
      by simp
    with g Inr t1 show ?thesis
      by (auto simp: deepResearch.simps split: prod.splits sum.splits)
  qed
next
  case (2 env w breadth depth ls vs)
  show ?case by simp
next
  case (3 env w serpQuery rest breadth depth ls vs)
  obtain x w1 t1 where p: "processSingleSerpQuery env w serpQuery breadth depth ls vs = (x, w1, t1)"
    by (cases "processSingleSerpQuery env w serpQuery breadth depth ls vs") auto
  from 3(1) [OF 3(3)] p have t1: "list_all (breadthHalved breadth) t1" by simp
  show ?case
  proof (cases x)
    case (Inl e)
    with p t1 show ?thesis by simp
  next
    case (Inr r)
    from 3(2) [of x "(w1, t1)" r w1 t1, OF _ _ _ 3(3)] p Inr
    have "list_all (breadthHalved breadth)
      (snd (snd (runSerpQueries env w1 rest breadth depth ls vs)))"
      by simp
    with p Inr t1 show ?thesis by (auto split: prod.splits sum.splits)
  qed
next
  case (4 env w serpQuery breadth depth ls vs)
  obtain x w1 t1 where t: "tryProcessSingleSerpQuery env w serpQuery breadth depth ls vs = (x, w1, t1)"
    by (cases "tryProcessSingleSerpQuery env w serpQuery breadth depth ls vs") auto
  from 4(1) [OF 4(2)] t have t1: "list_all (breadthHalved breadth) t1" by simp
  show ?case
  proof (cases x)
    case (Inr r)
    with t t1 show ?thesis by (simp add: catch_returns)
  next
    case (Inl e)
    show ?thesis
    proof (cases "handleSerpQueryError e (query serpQuery)")
      case thrown: (Inl e')
      with t Inl t1 show ?thesis by (simp add: catch_throws)
    next
      case logged: (Inr logged)
      from handle_effects [OF logged, of breadth] t Inl logged t1 show ?thesis
        by (simp add: catch_logs)
    qed
  qed
next
  case (5 env w serpQuery breadth depth ls vs)
  show ?case
  proof (cases rule: try_cases [where env=env and w=w and sq=serpQuery and b=breadth
        and d=depth and ls=ls and vs=vs])
    case (search_fails e w1)
    then show ?thesis by (simp add: try_search_fails)
  next
    case (process_fails result w1 e w2 t2)
    from process_effects_eq [OF process_fails(2), of breadth] show ?thesis
      by (simp add: try_process_fails [OF process_fails])
  next
    case (terminal result w1 a w2 t2)
    from process_effects_eq [OF terminal(2), of breadth] show ?thesis
      by (simp add: try_terminal [OF terminal])
  next
    case (recurses result w1 a w2 t2 r w3 t3)
    have nb: "1 \<le> \<lceil>real_of_int breadth / 2\<rceil>"
      using 5(2) by (rule ceil_half_pos)
    from 5(1) [OF fetch_eq [OF recurses(1), symmetric] refl refl refl refl refl
        recurses(2) [symmetric] refl refl refl refl recurses(3) refl nb] recurses(4)
    have sub: "list_all (breadthHalved \<lceil>real_of_int breadth / 2\<rceil>) t3" by simp
    from research_starts_with_plan [of env w2
        "generateNextResearchQuery (researchGoal serpQuery) (followUpQuestions a)"
        "\<lceil>real_of_int breadth / 2\<rceil>" "depth - 1"
        "ls @ analysisLearnings a" "vs @ extractUrlsFromResult result"] recurses(4)
    have first: "take 1 t3
      = [GenerateQueries (generateNextResearchQuery (researchGoal serpQuery) (followUpQuestions a))
           \<lceil>real_of_int breadth / 2\<rceil> (ls @ analysisLearnings a)]"
      by simp
    from nested_call_halved [OF nb sub first refl]
    have "breadthHalved breadth
      (DeepResearchCall (generateNextResearchQuery (researchGoal serpQuery) (followUpQuestions a))
         \<lceil>real_of_int breadth / 2\<rceil> (depth - 1)
         (ls @ analysisLearnings a) (vs @ extractUrlsFromResult result) t3)" .
    with process_effects_eq [OF recurses(2), of breadth] show ?thesis
      by (simp add: try_recurses [OF recurses] del: breadthHalved.simps(1))
  qed
qed

lemma branch_calls_cases:
  "recursiveCalls (snd (snd (processSingleSerpQuery env w sq b d ls vs))) = []
   \<or> (\<exists>q' new urls.
        recursiveCalls (snd (snd (processSingleSerpQuery env w sq b d ls vs)))
          = [(q', \<lceil>real_of_int b / 2\<rceil>, d - 1, ls @ new, vs @ urls)])"
proof (cases rule: try_cases [where env=env and w=w and sq=sq and b=b and d=d and ls=ls and vs=vs])
  case (search_fails e w1)
  then show ?thesis by (simp add: branch_search_fails_calls)
next
  case (process_fails result w1 e w2 t2)
  then show ?thesis by (simp add: branch_process_fails_calls)
next
  case (terminal result w1 a w2 t2)
  then show ?thesis by (simp add: branch_terminal_calls)
next
  case (recurses result w1 a w2 t2 r w3 t3)
  from branch_calls_deep(1) [OF recurses(1-3)] show ?thesis by blast
qed

lemma run_rejects:
  assumes "fst (runSerpQueries env w pre b d ls vs) = Inr rs"
    and "fst (processSingleSerpQuery env (fst (snd (runSerpQueries env w pre b d ls vs)))
           sq b d ls vs) = Inl e"
  shows "fst (runSerpQueries env w (pre @ sq # rest) b d ls vs) = Inl e"
  using assms
proof (induction pre arbitrary: w rs)
  case Nil
  then show ?case by (auto split: prod.splits sum.splits)
next
  case (Cons p pre)
  obtain x w1 t1 where p: "processSingleSerpQuery env w p b d ls vs = (x, w1, t1)"
    by (cases "processSingleSerpQuery env w p b d ls vs") auto
  show ?case
  proof (cases x)
    case (Inl e0)
    with p Cons.prems(1) show ?thesis by simp
  next
    case (Inr r)
    with p Cons.prems(1) obtain rs' where
      rs': "fst (runSerpQueries env w1 pre b d ls vs) = Inr rs'"
      by (auto split: prod.splits sum.splits)
    from p Inr rs' Cons.prems(2)
    have "fst (processSingleSerpQuery env (fst (snd (runSerpQueries env w1 pre b d ls vs)))
           sq b d ls vs) = Inl e"
      by (auto split: prod.splits sum.splits)
    from Cons.IH [OF rs' this] p Inr show ?thesis
      by (auto split: prod.splits sum.splits)
  qed
qed

subsection \<open>Running the small world\<close>

lemmas demo_simps =
  deepResearch.simps processSingleSerpQuery.simps tryProcessSingleSerpQuery.simps
  generateSerpQueries_def fetchSerpResults_def processSerpResult_def
  extractAndTrimSerpContent_def extractUrlsFromResult_def
  generateNextResearchQuery_def aggregate_def newSet_def compact_def slice0_def
  demoEnv_def alphaQuery_def betaQuery_def gammaQuery_def deltaQuery_def omegaQuery_def
  pageOf_def
  analysisOf_def RATE_LIMIT_MS_def
  fourCharTokens_def str_trim_def ceil_half Let_def trimPrompt_fits


lemma demo_topic_calls:
  "recursiveCalls (snd (snd (deepResearch demoEnv 0 ''topic'' 3 2 [] []))) =
     [(''Previous research goal: study beta'' @ [CHR 0x0A] @ ''Follow-up research directions: '',
       2, 1, [''learned beta''], [''http://beta'']),
      (''Previous research goal: unplannable'' @ [CHR 0x0A] @ ''Follow-up research directions: '',
       2, 1, [''learned gamma''], [''http://gamma''])]"
  by (simp add: demo_simps recursiveCalls_def)

lemma demo_topic_planner:
  "plannerCalls (snd (snd (deepResearch demoEnv 0 ''topic'' 3 2 [] []))) =
     [(''topic'', 3, []),
      (''Previous research goal: study beta'' @ [CHR 0x0A] @ ''Follow-up research directions: '',
       2, [''learned beta'']),
      (''Previous research goal: unplannable'' @ [CHR 0x0A] @ ''Follow-up research directions: '',
       2, [''learned gamma''])]"
  by (simp add: demo_simps plannerCalls_def)

lemma demo_beta_search: "firecrawlSearch demoEnv 0 (query betaQuery) = (Inr (pageOf ''beta''), 1)"
  by (simp add: demoEnv_def betaQuery_def)

lemma demo_beta_contents:
  "extractAndTrimSerpContent demoEnv (pageOf ''beta'') = Some [''about beta'']"
  by (simp add: extractAndTrimSerpContent_def demoEnv_def pageOf_def compact_def
      trimPrompt_fits fourCharTokens_def)

lemma demo_beta_process:
  "processSerpResult demoEnv 1 (query betaQuery) (pageOf ''beta'') n
    = (Inr (analysisOf ''beta''), 2,
       [LogRan ''beta'' 1, GenerateAnalysis ''beta'' [''about beta''] 3 n,
        LogCreatedLearnings 1])"
  by (simp add: processSerpResult_def demo_beta_contents)
    (simp add: demoEnv_def betaQuery_def analysisOf_def)


lemma demo_beta_nested:
  "deepResearch demoEnv 2
     (generateNextResearchQuery (researchGoal betaQuery) (followUpQuestions (analysisOf ''beta'')))
     \<lceil>real_of_int 3 / 2\<rceil> (2 - 1)
     ([] @ analysisLearnings (analysisOf ''beta''))
     ([] @ extractUrlsFromResult (pageOf ''beta''))
   = (Inr \<lparr>learnings = [''learned beta''], visitedUrls = [''http://beta'']\<rparr>, 6,
      [GenerateQueries
         (''Previous research goal: study beta'' @ [CHR 0x0A] @ ''Follow-up research directions: '')
         2 [''learned beta''],
       LogCreatedQueries 3,
       Sleep 1000, FirecrawlSearch ''alpha'',
       LogTimeoutError ''alpha'' (Thrown (Message ''Timeout after 15000 ms'')),
       Sleep 1000, FirecrawlSearch ''beta'', LogRan ''beta'' 1,
       GenerateAnalysis ''beta'' [''about beta''] 3 1, LogCreatedLearnings 1])"
  by (simp add: demo_simps)

section \<open>Properties of the orchestrator: the claims\<close>

text \<open>
  C1. Failure isolation holds for a thrown value that \<^verbatim>\<open>handleSerpQueryError\<close> can
  log, and fails for the others. The \<^verbatim>\<open>catch\<close> of \<^verbatim>\<open>processSingleSerpQuery\<close> calls
  the handler before it returns the empty result, and the handler reads
  \<^verbatim>\<open>error.message\<close>: when the branch was rejected with \<^verbatim>\<open>undefined\<close> or
  \<^verbatim>\<open>null\<close>, or with a value whose message is truthy and has no method
  \<^verbatim>\<open>includes\<close>, the handler throws a \<^verbatim>\<open>TypeError\<close>, the branch rejects with it
  instead of returning the empty result, and \<^verbatim>\<open>deepResearch\<close> rejects although
  its planning call returned: the results of the branches that returned before
  are lost, and so are those of the branches after it. A value with a
  string or a falsy message is logged, and the branch returns the empty result.
\<close>

theorem branch_rejection_escapes:
  "(handleSerpQueryError e q' = Inl e'
      \<longleftrightarrow> (e = ThrownUndefined \<and> e' = typeErrorUndefined)
        \<or> (e = ThrownNull \<and> e' = typeErrorNull)
        \<or> (e = Thrown OddMessage \<and> e' = typeErrorIncludes))
   \<and> (firecrawlSearch env w (query sq) = (Inl e, w1)
      \<and> handleSerpQueryError e (query sq) = Inl e'
      \<longrightarrow> processSingleSerpQuery env w sq b d ls vs
           = (Inl e', w1, [Sleep RATE_LIMIT_MS, FirecrawlSearch (query sq)]))
   \<and> (firecrawlSearch env w (query sq) = (Inl e, w1)
      \<and> handleSerpQueryError e (query sq) = Inr logged
      \<longrightarrow> processSingleSerpQuery env w sq b d ls vs
           = (Inr \<lparr>learnings = [], visitedUrls = []\<rparr>, w1,
              [Sleep RATE_LIMIT_MS, FirecrawlSearch (query sq)] @ logged))
   \<and> (fst (tryProcessSingleSerpQuery env w sq b d ls vs) = Inl e
      \<longrightarrow> fst (processSingleSerpQuery env w sq b d ls vs)
           = (case handleSerpQueryError e (query sq) of
                Inl thrown \<Rightarrow> Inl thrown
              | Inr logged \<Rightarrow> Inr \<lparr>learnings = [], visitedUrls = []\<rparr>))
   \<and> (generateQueries env w0 q b ls = (Inr queries, w)
      \<and> slice0 queries b = pre @ sq # rest
      \<and> fst (runSerpQueries env w pre b d ls vs) = Inr rs
      \<and> fst (processSingleSerpQuery env (fst (snd (runSerpQueries env w pre b d ls vs)))
            sq b d ls vs) = Inl e'
      \<longrightarrow> fst (deepResearch env w0 q b d ls vs) = Inl e')"
proof (intro conjI impI)
  show "handleSerpQueryError e q' = Inl e'
      \<longleftrightarrow> (e = ThrownUndefined \<and> e' = typeErrorUndefined)
        \<or> (e = ThrownNull \<and> e' = typeErrorNull)
        \<or> (e = Thrown OddMessage \<and> e' = typeErrorIncludes)"
    by (rule handle_throws)
next
  assume "firecrawlSearch env w (query sq) = (Inl e, w1)
      \<and> handleSerpQueryError e (query sq) = Inl e'"
  then show "processSingleSerpQuery env w sq b d ls vs
           = (Inl e', w1, [Sleep RATE_LIMIT_MS, FirecrawlSearch (query sq)])"
    by (simp add: catch_throws [OF try_search_fails])
next
  assume "firecrawlSearch env w (query sq) = (Inl e, w1)
      \<and> handleSerpQueryError e (query sq) = Inr logged"
  then show "processSingleSerpQuery env w sq b d ls vs
           = (Inr \<lparr>learnings = [], visitedUrls = []\<rparr>, w1,
              [Sleep RATE_LIMIT_MS, FirecrawlSearch (query sq)] @ logged)"
    by (simp add: catch_logs [OF try_search_fails])
next
  assume "fst (tryProcessSingleSerpQuery env w sq b d ls vs) = Inl e"
  then show "fst (processSingleSerpQuery env w sq b d ls vs)
           = (case handleSerpQueryError e (query sq) of
                Inl thrown \<Rightarrow> Inl thrown
              | Inr logged \<Rightarrow> Inr \<lparr>learnings = [], visitedUrls = []\<rparr>)"
    by (auto simp: processSingleSerpQuery.simps split: prod.splits sum.splits)
next
  assume a: "generateQueries env w0 q b ls = (Inr queries, w)
      \<and> slice0 queries b = pre @ sq # rest
      \<and> fst (runSerpQueries env w pre b d ls vs) = Inr rs
      \<and> fst (processSingleSerpQuery env (fst (snd (runSerpQueries env w pre b d ls vs)))
            sq b d ls vs) = Inl e'"
  then have g: "generateSerpQueries env w0 q b ls
      = (Inr (pre @ sq # rest), w, [GenerateQueries q b ls, LogCreatedQueries (length queries)])"
    by (simp add: plan_eq(2))
  from a have "fst (runSerpQueries env w (pre @ sq # rest) b d ls vs) = Inl e'"
    by (intro run_rejects [of env w pre b d ls vs rs]) simp_all
  with g show "fst (deepResearch env w0 q b d ls vs) = Inl e'"
    by (auto simp: deepResearch.simps split: prod.splits sum.splits)
qed

theorem branch_rejection_escapes_witness:
  "handleSerpQueryError ThrownUndefined ''omega'' = Inl typeErrorUndefined
   \<and> generateQueries demoEnv 0 ''omega last'' 3 [] = (Inr [betaQuery, omegaQuery], 1)
   \<and> slice0 [betaQuery, omegaQuery] 3 = [betaQuery] @ omegaQuery # []
   \<and> runSerpQueries demoEnv 1 [betaQuery] 3 1 [] []
       = (Inr [\<lparr>learnings = [''learned beta''], visitedUrls = [''http://beta'']\<rparr>], 3,
          [Sleep RATE_LIMIT_MS, FirecrawlSearch ''beta'', LogRan ''beta'' 1,
           GenerateAnalysis ''beta'' [''about beta''] 3 2, LogCreatedLearnings 1])
   \<and> firecrawlSearch demoEnv 3 (query omegaQuery) = (Inl ThrownUndefined, 4)
   \<and> processSingleSerpQuery demoEnv 3 omegaQuery 3 1 [] []
       = (Inl typeErrorUndefined, 4, [Sleep RATE_LIMIT_MS, FirecrawlSearch ''omega''])
   \<and> fst (deepResearch demoEnv 0 ''omega last'' 3 1 [] []) = Inl typeErrorUndefined
   \<and> firecrawlSearch demoEnv 1 (query alphaQuery)
       = (Inl (Thrown (Message ''Timeout after 15000 ms'')), 2)
   \<and> processSingleSerpQuery demoEnv 1 alphaQuery 3 2 [] []
       = (Inr \<lparr>learnings = [], visitedUrls = []\<rparr>, 2,
          [Sleep RATE_LIMIT_MS, FirecrawlSearch ''alpha'',
           LogTimeoutError ''alpha'' (Thrown (Message ''Timeout after 15000 ms''))])
   \<and> fst (tryProcessSingleSerpQuery demoEnv 1 gammaQuery 3 2 [] [])
       = Inl (Thrown (Message ''no plan''))
   \<and> fst (processSingleSerpQuery demoEnv 1 gammaQuery 3 2 [] [])
       = Inr \<lparr>learnings = [], visitedUrls = []\<rparr>"
proof -
  note gamma = branch_rejection_escapes [where e="Thrown (Message ''no plan'')"
      and env=demoEnv and w=1 and sq=gammaQuery and b=3 and d=2 and ls="[]" and vs="[]"]
  note omega = branch_rejection_escapes [where e=ThrownUndefined and e'=typeErrorUndefined
      and q'="''omega''" and env=demoEnv and w=3 and sq=omegaQuery and ?w1.0=4 and b=3 and d=1
      and ls="[]" and vs="[]"]
  note root = branch_rejection_escapes [where e'=typeErrorUndefined and env=demoEnv
      and ?w0.0=0 and q="''omega last''" and queries="[betaQuery, omegaQuery]" and w=1
      and pre="[betaQuery]" and sq=omegaQuery and rest="[]" and b=3 and d=1 and ls="[]"
      and vs="[]"
      and rs="[\<lparr>learnings = [''learned beta''], visitedUrls = [''http://beta'']\<rparr>]"]
  note alpha = branch_rejection_escapes [where e="Thrown (Message ''Timeout after 15000 ms'')"
      and env=demoEnv and w=1 and sq=alphaQuery and ?w1.0=2 and b=3 and d=2
      and ls="[]" and vs="[]"
      and logged="[LogTimeoutError ''alpha'' (Thrown (Message ''Timeout after 15000 ms''))]"]
  have h: "handleSerpQueryError ThrownUndefined ''omega'' = Inl typeErrorUndefined"
    by simp
  have g: "generateQueries demoEnv 0 ''omega last'' 3 [] = (Inr [betaQuery, omegaQuery], 1)"
    by (simp add: demoEnv_def)
  have s: "slice0 [betaQuery, omegaQuery] 3 = [betaQuery] @ omegaQuery # []"
    by (simp add: slice0_def)
  have b: "runSerpQueries demoEnv 1 [betaQuery] 3 1 [] []
       = (Inr [\<lparr>learnings = [''learned beta''], visitedUrls = [''http://beta'']\<rparr>], 3,
          [Sleep RATE_LIMIT_MS, FirecrawlSearch ''beta'', LogRan ''beta'' 1,
           GenerateAnalysis ''beta'' [''about beta''] 3 2, LogCreatedLearnings 1])"
    by (simp add: demo_simps)
  have f: "firecrawlSearch demoEnv 3 (query omegaQuery) = (Inl ThrownUndefined, 4)"
    by (simp add: demoEnv_def omegaQuery_def)
  have fa: "firecrawlSearch demoEnv 1 (query alphaQuery)
       = (Inl (Thrown (Message ''Timeout after 15000 ms'')), 2)"
    by (simp add: demoEnv_def alphaQuery_def)
  have ha: "handleSerpQueryError (Thrown (Message ''Timeout after 15000 ms'')) (query alphaQuery)
       = Inr [LogTimeoutError ''alpha'' (Thrown (Message ''Timeout after 15000 ms''))]"
    by (simp add: alphaQuery_def)
  from omega f h
  have p: "processSingleSerpQuery demoEnv 3 omegaQuery 3 1 [] []
       = (Inl typeErrorUndefined, 4, [Sleep RATE_LIMIT_MS, FirecrawlSearch ''omega''])"
    by (simp add: omegaQuery_def)
  from root g s b p
  have r: "fst (deepResearch demoEnv 0 ''omega last'' 3 1 [] []) = Inl typeErrorUndefined"
    by simp
  from alpha fa ha
  have pa: "processSingleSerpQuery demoEnv 1 alphaQuery 3 2 [] []
       = (Inr \<lparr>learnings = [], visitedUrls = []\<rparr>, 2,
          [Sleep RATE_LIMIT_MS, FirecrawlSearch ''alpha'',
           LogTimeoutError ''alpha'' (Thrown (Message ''Timeout after 15000 ms''))])"
    by (simp add: alphaQuery_def)
  have tg: "fst (tryProcessSingleSerpQuery demoEnv 1 gammaQuery 3 2 [] [])
       = Inl (Thrown (Message ''no plan''))"
    by (simp add: demo_simps)
  from gamma tg
  have pg: "fst (processSingleSerpQuery demoEnv 1 gammaQuery 3 2 [] [])
       = Inr \<lparr>learnings = [], visitedUrls = []\<rparr>"
    by (simp add: gammaQuery_def)
  from h g s b f p r fa pa tg pg show ?thesis by blast
qed




text \<open>
  C6. Breadth decay. With a breadth of at least 1, the ceiling of half the breadth is at
  least 1, and it is the breadth of every nested call: the \<^verbatim>\<open>try\<close> block of a branch
  that runs with breadth \<open>b\<close> and recurses ends as \<^verbatim>\<open>deepResearch\<close> does on the
  breadth \<open>\<lceil>b / 2\<rceil>\<close> (with its result or its rejection, in the world it leaves, its
  effects being those of the nested call); and in the whole call tree every nested call
  was given the ceiling of half the breadth of the code that made it, and began by asking
  the planner for that many queries.
\<close>

theorem breadth_decay:
  assumes "1 \<le> b"
  shows "1 \<le> \<lceil>real_of_int b / 2\<rceil>
    \<and> (firecrawlSearch env w (query sq) = (Inr result, w1)
       \<and> processSerpResult env w1 (query sq) result \<lceil>real_of_int b / 2\<rceil> = (Inr a, w2, t2)
       \<and> 0 < d - 1
       \<longrightarrow> tryProcessSingleSerpQuery env w sq b d ls vs
            = (case deepResearch env w2
                      (generateNextResearchQuery (researchGoal sq) (followUpQuestions a))
                      \<lceil>real_of_int b / 2\<rceil> (d - 1)
                      (ls @ analysisLearnings a) (vs @ extractUrlsFromResult result) of
                 (r, w3, t3) \<Rightarrow>
                   (r, w3,
                    [Sleep RATE_LIMIT_MS, FirecrawlSearch (query sq)] @ t2 @
                    [LogResearchingDeeper \<lceil>real_of_int b / 2\<rceil> (d - 1),
                     DeepResearchCall
                       (generateNextResearchQuery (researchGoal sq) (followUpQuestions a))
                       \<lceil>real_of_int b / 2\<rceil> (d - 1)
                       (ls @ analysisLearnings a) (vs @ extractUrlsFromResult result) t3])))
    \<and> list_all (\<lambda>(q', b', rest). b' = \<lceil>real_of_int b / 2\<rceil>)
        (recursiveCalls (snd (snd (processSingleSerpQuery env w sq b d ls vs))))
    \<and> list_all (breadthHalved b) (snd (snd (processSingleSerpQuery env w sq b d ls vs)))
    \<and> list_all (breadthHalved b) (snd (snd (deepResearch env w q b d ls vs)))"
proof (intro conjI impI)
  show "1 \<le> \<lceil>real_of_int b / 2\<rceil>" using assms by (rule ceil_half_pos)
next
  assume "firecrawlSearch env w (query sq) = (Inr result, w1)
       \<and> processSerpResult env w1 (query sq) result \<lceil>real_of_int b / 2\<rceil> = (Inr a, w2, t2)
       \<and> 0 < d - 1"
  then have h: "firecrawlSearch env w (query sq) = (Inr result, w1)"
    "processSerpResult env w1 (query sq) result \<lceil>real_of_int b / 2\<rceil> = (Inr a, w2, t2)"
    "0 < d - 1"
    by blast+
  obtain r w3 t3 where
    dr: "deepResearch env w2
       (generateNextResearchQuery (researchGoal sq) (followUpQuestions a))
       \<lceil>real_of_int b / 2\<rceil> (d - 1)
       (ls @ analysisLearnings a) (vs @ extractUrlsFromResult result) = (r, w3, t3)"
    by (cases "deepResearch env w2
       (generateNextResearchQuery (researchGoal sq) (followUpQuestions a))
       \<lceil>real_of_int b / 2\<rceil> (d - 1)
       (ls @ analysisLearnings a) (vs @ extractUrlsFromResult result)") auto
  from try_recurses [OF h dr] dr
  show "tryProcessSingleSerpQuery env w sq b d ls vs
            = (case deepResearch env w2
                      (generateNextResearchQuery (researchGoal sq) (followUpQuestions a))
                      \<lceil>real_of_int b / 2\<rceil> (d - 1)
                      (ls @ analysisLearnings a) (vs @ extractUrlsFromResult result) of
                 (r, w3, t3) \<Rightarrow>
                   (r, w3,
                    [Sleep RATE_LIMIT_MS, FirecrawlSearch (query sq)] @ t2 @
                    [LogResearchingDeeper \<lceil>real_of_int b / 2\<rceil> (d - 1),
                     DeepResearchCall
                       (generateNextResearchQuery (researchGoal sq) (followUpQuestions a))
                       \<lceil>real_of_int b / 2\<rceil> (d - 1)
                       (ls @ analysisLearnings a) (vs @ extractUrlsFromResult result) t3]))"
    by simp
next
  show "list_all (\<lambda>(q', b', rest). b' = \<lceil>real_of_int b / 2\<rceil>)
        (recursiveCalls (snd (snd (processSingleSerpQuery env w sq b d ls vs))))"
    using branch_calls_cases [of env w sq b d ls vs] by auto
next
  show "list_all (breadthHalved b) (snd (snd (processSingleSerpQuery env w sq b d ls vs)))"
    using assms by (rule breadth_halved_all(3))
next
  show "list_all (breadthHalved b) (snd (snd (deepResearch env w q b d ls vs)))"
    using assms by (rule breadth_halved_all(1))
qed

theorem breadth_decay_witness:
  "(1::int) \<le> 3
   \<and> (1::int) \<le> \<lceil>real_of_int 3 / 2\<rceil>
   \<and> firecrawlSearch demoEnv 0 (query betaQuery) = (Inr (pageOf ''beta''), 1)
   \<and> 0 < (2::int) - 1
   \<and> tryProcessSingleSerpQuery demoEnv 0 betaQuery 3 2 [] []
       = (Inr \<lparr>learnings = [''learned beta''], visitedUrls = [''http://beta'']\<rparr>, 6,
          [Sleep 1000, FirecrawlSearch ''beta'', LogRan ''beta'' 1,
           GenerateAnalysis ''beta'' [''about beta''] 3 2, LogCreatedLearnings 1,
           LogResearchingDeeper 2 1,
           DeepResearchCall
             (''Previous research goal: study beta'' @ [CHR 0x0A]
                @ ''Follow-up research directions: '')
             2 1 [''learned beta''] [''http://beta'']
             [GenerateQueries
                (''Previous research goal: study beta'' @ [CHR 0x0A]
                   @ ''Follow-up research directions: '')
                2 [''learned beta''],
              LogCreatedQueries 3,
              Sleep 1000, FirecrawlSearch ''alpha'',
              LogTimeoutError ''alpha'' (Thrown (Message ''Timeout after 15000 ms'')),
              Sleep 1000, FirecrawlSearch ''beta'', LogRan ''beta'' 1,
              GenerateAnalysis ''beta'' [''about beta''] 3 1, LogCreatedLearnings 1]])
   \<and> list_all (\<lambda>(q', b', rest). b' = \<lceil>real_of_int 3 / 2\<rceil>)
        (recursiveCalls (snd (snd (processSingleSerpQuery demoEnv 0 betaQuery 3 2 [] []))))
   \<and> list_all (breadthHalved 3) (snd (snd (processSingleSerpQuery demoEnv 0 betaQuery 3 2 [] [])))
   \<and> list_all (breadthHalved 3) (snd (snd (deepResearch demoEnv 0 ''topic'' 3 2 [] [])))
   \<and> map (\<lambda>(q', b', rest). b') (recursiveCalls (snd (snd (deepResearch demoEnv 0 ''topic'' 3 2 [] []))))
       = [2, 2]
   \<and> map (\<lambda>(q', n, rest). n) (plannerCalls (snd (snd (deepResearch demoEnv 0 ''topic'' 3 2 [] []))))
       = [3, 2, 2]"
proof -
  have h: "(1::int) \<le> 3" by simp
  have d2: "0 < (2::int) - 1" by simp
  note t = breadth_decay [OF h, of demoEnv 0 betaQuery "pageOf ''beta''" 1
      "analysisOf ''beta''" 2
      "[LogRan ''beta'' 1, GenerateAnalysis ''beta'' [''about beta''] 3 \<lceil>real_of_int 3 / 2\<rceil>,
        LogCreatedLearnings 1]" 2 "[]" "[]" "''topic''"]
  from t d2 demo_beta_search demo_beta_process demo_beta_nested
  have "tryProcessSingleSerpQuery demoEnv 0 betaQuery 3 2 [] []
       = (Inr \<lparr>learnings = [''learned beta''], visitedUrls = [''http://beta'']\<rparr>, 6,
          [Sleep 1000, FirecrawlSearch ''beta'', LogRan ''beta'' 1,
           GenerateAnalysis ''beta'' [''about beta''] 3 2, LogCreatedLearnings 1,
           LogResearchingDeeper 2 1,
           DeepResearchCall
             (''Previous research goal: study beta'' @ [CHR 0x0A]
                @ ''Follow-up research directions: '')
             2 1 [''learned beta''] [''http://beta'']
             [GenerateQueries
                (''Previous research goal: study beta'' @ [CHR 0x0A]
                   @ ''Follow-up research directions: '')
                2 [''learned beta''],
              LogCreatedQueries 3,
              Sleep 1000, FirecrawlSearch ''alpha'',
              LogTimeoutError ''alpha'' (Thrown (Message ''Timeout after 15000 ms'')),
              Sleep 1000, FirecrawlSearch ''beta'', LogRan ''beta'' 1,
              GenerateAnalysis ''beta'' [''about beta''] 3 1, LogCreatedLearnings 1]])"
    by (simp add: ceil_half RATE_LIMIT_MS_def betaQuery_def analysisOf_def pageOf_def
        extractUrlsFromResult_def compact_def generateNextResearchQuery_def)
  with t h d2 demo_beta_search demo_topic_calls demo_topic_planner show ?thesis
    by simp
qed

text \<open>
  C7, as stated, fails: a positive \<open>depth - 1\<close> is not enough for a branch to recurse.
  Here \<open>depth - 1\<close> is 1 and the search of the branch times out: the branch returns the
  empty result after the search and the log of the error, with no nested call and no
  call of the planner.
\<close>

theorem failed_branch_counterexample:
  "0 < (2::int) - 1
   \<and> processSingleSerpQuery demoEnv 1 alphaQuery 3 2 [] []
       = (Inr \<lparr>learnings = [], visitedUrls = []\<rparr>, 2,
          [Sleep 1000, FirecrawlSearch ''alpha'',
           LogTimeoutError ''alpha'' (Thrown (Message ''Timeout after 15000 ms''))])
   \<and> recursiveCalls (snd (snd (processSingleSerpQuery demoEnv 1 alphaQuery 3 2 [] []))) = []
   \<and> plannerCalls (snd (snd (processSingleSerpQuery demoEnv 1 alphaQuery 3 2 [] []))) = []"
  by (simp add: demo_simps recursiveCalls_def plannerCalls_def)

text \<open>
  C7, amended. Recursion is gated by the depth, for a branch that gets that far, and not
  by the follow-up questions.
  \<^item> When \<open>depth - 1\<close> is not positive, a branch makes no nested call, and the only
    call of the planner in a run of \<^verbatim>\<open>deepResearch\<close> is its own: the run stays
    within a single level. This is so at depth 0.
  \<^item> A branch whose search or whose analysis throws makes no nested call, whatever the
    depth.
  \<^item> A branch whose search and analysis returned makes a nested call exactly when
    \<open>depth - 1\<close> is positive, whatever follow-up questions the analysis holds (none, in
    the example). When it is, the \<^verbatim>\<open>try\<close> block of the branch ends as
    \<^verbatim>\<open>deepResearch\<close> does on the next query, the halved breadth, \<open>depth - 1\<close>
    and the extended lists (with its result, or with its rejection, which goes to the
    \<^verbatim>\<open>catch\<close> of the branch); when it is not, the branch returns the extended
    lists.
\<close>

theorem recursion_gated_by_depth:
  "(\<not> 0 < d - 1
      \<longrightarrow> recursiveCalls (snd (snd (processSingleSerpQuery env w sq b d ls vs))) = []
        \<and> plannerCalls (snd (snd (processSingleSerpQuery env w sq b d ls vs))) = []
        \<and> recursiveCalls (snd (snd (deepResearch env w q b d ls vs))) = []
        \<and> plannerCalls (snd (snd (deepResearch env w q b d ls vs))) = [(q, b, ls)])
   \<and> recursiveCalls (snd (snd (deepResearch env w q b 0 ls vs))) = []
   \<and> plannerCalls (snd (snd (deepResearch env w q b 0 ls vs))) = [(q, b, ls)]
   \<and> (firecrawlSearch env w (query sq) = (Inl e, w1)
       \<or> (firecrawlSearch env w (query sq) = (Inr result, w1)
          \<and> processSerpResult env w1 (query sq) result \<lceil>real_of_int b / 2\<rceil> = (Inl e, w2, t2))
      \<longrightarrow> recursiveCalls (snd (snd (processSingleSerpQuery env w sq b d ls vs))) = []
        \<and> plannerCalls (snd (snd (processSingleSerpQuery env w sq b d ls vs))) = [])
   \<and> (firecrawlSearch env w (query sq) = (Inr result, w1)
      \<and> processSerpResult env w1 (query sq) result \<lceil>real_of_int b / 2\<rceil> = (Inr a, w2, t2)
      \<longrightarrow> (recursiveCalls (snd (snd (processSingleSerpQuery env w sq b d ls vs))) \<noteq> []
            \<longleftrightarrow> 0 < d - 1)
        \<and> (plannerCalls (snd (snd (processSingleSerpQuery env w sq b d ls vs))) \<noteq> []
            \<longleftrightarrow> 0 < d - 1)
        \<and> (0 < d - 1
            \<longrightarrow> recursiveCalls (snd (snd (processSingleSerpQuery env w sq b d ls vs)))
                = [(generateNextResearchQuery (researchGoal sq) (followUpQuestions a),
                    \<lceil>real_of_int b / 2\<rceil>, d - 1,
                    ls @ analysisLearnings a, vs @ extractUrlsFromResult result)]
              \<and> tryProcessSingleSerpQuery env w sq b d ls vs
                = (case deepResearch env w2
                          (generateNextResearchQuery (researchGoal sq) (followUpQuestions a))
                          \<lceil>real_of_int b / 2\<rceil> (d - 1)
                          (ls @ analysisLearnings a) (vs @ extractUrlsFromResult result) of
                     (r, w3, t3) \<Rightarrow>
                       (r, w3,
                        [Sleep RATE_LIMIT_MS, FirecrawlSearch (query sq)] @ t2 @
                        [LogResearchingDeeper \<lceil>real_of_int b / 2\<rceil> (d - 1),
                         DeepResearchCall
                           (generateNextResearchQuery (researchGoal sq) (followUpQuestions a))
                           \<lceil>real_of_int b / 2\<rceil> (d - 1)
                           (ls @ analysisLearnings a) (vs @ extractUrlsFromResult result) t3])))
        \<and> (\<not> 0 < d - 1
            \<longrightarrow> processSingleSerpQuery env w sq b d ls vs
                = (Inr \<lparr>learnings = ls @ analysisLearnings a,
                        visitedUrls = vs @ extractUrlsFromResult result\<rparr>, w2,
                   [Sleep RATE_LIMIT_MS, FirecrawlSearch (query sq)] @ t2)))"
proof (intro conjI impI)
  assume "\<not> 0 < d - 1"
  then show "recursiveCalls (snd (snd (processSingleSerpQuery env w sq b d ls vs))) = []"
    and "plannerCalls (snd (snd (processSingleSerpQuery env w sq b d ls vs))) = []"
    and "recursiveCalls (snd (snd (deepResearch env w q b d ls vs))) = []"
    and "plannerCalls (snd (snd (deepResearch env w q b d ls vs))) = [(q, b, ls)]"
    using branch_calls_shallow [of d env w sq b ls vs] research_shallow [of d env w q b ls vs]
    by simp_all
next
  show "recursiveCalls (snd (snd (deepResearch env w q b 0 ls vs))) = []"
    using research_shallow [of 0 env w q b ls vs] by simp
next
  show "plannerCalls (snd (snd (deepResearch env w q b 0 ls vs))) = [(q, b, ls)]"
    using research_shallow [of 0 env w q b ls vs] by simp
next
  assume a: "firecrawlSearch env w (query sq) = (Inl e, w1)
       \<or> (firecrawlSearch env w (query sq) = (Inr result, w1)
          \<and> processSerpResult env w1 (query sq) result \<lceil>real_of_int b / 2\<rceil> = (Inl e, w2, t2))"
  then have "recursiveCalls (snd (snd (processSingleSerpQuery env w sq b d ls vs))) = []
        \<and> plannerCalls (snd (snd (processSingleSerpQuery env w sq b d ls vs))) = []"
  proof
    assume "firecrawlSearch env w (query sq) = (Inl e, w1)"
    then show ?thesis by (rule branch_search_fails_calls)
  next
    assume "firecrawlSearch env w (query sq) = (Inr result, w1)
          \<and> processSerpResult env w1 (query sq) result \<lceil>real_of_int b / 2\<rceil> = (Inl e, w2, t2)"
    then have "firecrawlSearch env w (query sq) = (Inr result, w1)"
      and "processSerpResult env w1 (query sq) result \<lceil>real_of_int b / 2\<rceil> = (Inl e, w2, t2)"
      by blast+
    then show ?thesis by (rule branch_process_fails_calls)
  qed
  then show "recursiveCalls (snd (snd (processSingleSerpQuery env w sq b d ls vs))) = []"
    and "plannerCalls (snd (snd (processSingleSerpQuery env w sq b d ls vs))) = []"
    by simp_all
next
  assume h: "firecrawlSearch env w (query sq) = (Inr result, w1)
      \<and> processSerpResult env w1 (query sq) result \<lceil>real_of_int b / 2\<rceil> = (Inr a, w2, t2)"
  show "recursiveCalls (snd (snd (processSingleSerpQuery env w sq b d ls vs))) \<noteq> []
            \<longleftrightarrow> 0 < d - 1"
  proof (cases "0 < d - 1")
    case True
    with branch_calls_deep(1) [of env w sq result w1 b a w2 t2 d ls vs] h show ?thesis by simp
  next
    case False
    with branch_calls_shallow [of d env w sq b ls vs] show ?thesis by simp
  qed
next
  assume h: "firecrawlSearch env w (query sq) = (Inr result, w1)
      \<and> processSerpResult env w1 (query sq) result \<lceil>real_of_int b / 2\<rceil> = (Inr a, w2, t2)"
  show "plannerCalls (snd (snd (processSingleSerpQuery env w sq b d ls vs))) \<noteq> []
            \<longleftrightarrow> 0 < d - 1"
  proof (cases "0 < d - 1")
    case True
    with branch_calls_deep(2) [of env w sq result w1 b a w2 t2 d ls vs] h research_plans
    show ?thesis by simp
  next
    case False
    with branch_calls_shallow [of d env w sq b ls vs] show ?thesis by simp
  qed
next
  assume h: "firecrawlSearch env w (query sq) = (Inr result, w1)
      \<and> processSerpResult env w1 (query sq) result \<lceil>real_of_int b / 2\<rceil> = (Inr a, w2, t2)"
    and "0 < d - 1"
  then show "recursiveCalls (snd (snd (processSingleSerpQuery env w sq b d ls vs)))
              = [(generateNextResearchQuery (researchGoal sq) (followUpQuestions a),
                  \<lceil>real_of_int b / 2\<rceil>, d - 1,
                  ls @ analysisLearnings a, vs @ extractUrlsFromResult result)]"
    using branch_calls_deep(1) [of env w sq result w1 b a w2 t2 d ls vs] by simp
next
  assume "firecrawlSearch env w (query sq) = (Inr result, w1)
      \<and> processSerpResult env w1 (query sq) result \<lceil>real_of_int b / 2\<rceil> = (Inr a, w2, t2)"
    and "0 < d - 1"
  then have h: "firecrawlSearch env w (query sq) = (Inr result, w1)"
    "processSerpResult env w1 (query sq) result \<lceil>real_of_int b / 2\<rceil> = (Inr a, w2, t2)"
    "0 < d - 1"
    by blast+
  obtain r w3 t3 where
    dr: "deepResearch env w2
       (generateNextResearchQuery (researchGoal sq) (followUpQuestions a))
       \<lceil>real_of_int b / 2\<rceil> (d - 1)
       (ls @ analysisLearnings a) (vs @ extractUrlsFromResult result) = (r, w3, t3)"
    by (cases "deepResearch env w2
       (generateNextResearchQuery (researchGoal sq) (followUpQuestions a))
       \<lceil>real_of_int b / 2\<rceil> (d - 1)
       (ls @ analysisLearnings a) (vs @ extractUrlsFromResult result)") auto
  from try_recurses [OF h dr] dr
  show "tryProcessSingleSerpQuery env w sq b d ls vs
            = (case deepResearch env w2
                      (generateNextResearchQuery (researchGoal sq) (followUpQuestions a))
                      \<lceil>real_of_int b / 2\<rceil> (d - 1)
                      (ls @ analysisLearnings a) (vs @ extractUrlsFromResult result) of
                 (r, w3, t3) \<Rightarrow>
                   (r, w3,
                    [Sleep RATE_LIMIT_MS, FirecrawlSearch (query sq)] @ t2 @
                    [LogResearchingDeeper \<lceil>real_of_int b / 2\<rceil> (d - 1),
                     DeepResearchCall
                       (generateNextResearchQuery (researchGoal sq) (followUpQuestions a))
                       \<lceil>real_of_int b / 2\<rceil> (d - 1)
                       (ls @ analysisLearnings a) (vs @ extractUrlsFromResult result) t3]))"
    by simp
next
  assume "firecrawlSearch env w (query sq) = (Inr result, w1)
      \<and> processSerpResult env w1 (query sq) result \<lceil>real_of_int b / 2\<rceil> = (Inr a, w2, t2)"
    and "\<not> 0 < d - 1"
  then have h: "firecrawlSearch env w (query sq) = (Inr result, w1)"
    "processSerpResult env w1 (query sq) result \<lceil>real_of_int b / 2\<rceil> = (Inr a, w2, t2)"
    "\<not> 0 < d - 1"
    by blast+
  from try_terminal [OF h]
  show "processSingleSerpQuery env w sq b d ls vs
                = (Inr \<lparr>learnings = ls @ analysisLearnings a,
                        visitedUrls = vs @ extractUrlsFromResult result\<rparr>, w2,
                   [Sleep RATE_LIMIT_MS, FirecrawlSearch (query sq)] @ t2)"
    by (rule catch_returns)
qed

theorem recursion_gated_by_depth_witness:
  "\<not> 0 < (1::int) - 1
   \<and> recursiveCalls (snd (snd (processSingleSerpQuery demoEnv 0 betaQuery 2 1 [] []))) = []
   \<and> plannerCalls (snd (snd (processSingleSerpQuery demoEnv 0 betaQuery 2 1 [] []))) = []
   \<and> recursiveCalls (snd (snd (deepResearch demoEnv 0 ''topic'' 2 1 [] []))) = []
   \<and> plannerCalls (snd (snd (deepResearch demoEnv 0 ''topic'' 2 1 [] []))) = [(''topic'', 2, [])]
   \<and> recursiveCalls (snd (snd (deepResearch demoEnv 0 ''topic'' 2 0 [] []))) = []
   \<and> plannerCalls (snd (snd (deepResearch demoEnv 0 ''topic'' 2 0 [] []))) = [(''topic'', 2, [])]
   \<and> firecrawlSearch demoEnv 0 (query alphaQuery)
       = (Inl (Thrown (Message ''Timeout after 15000 ms'')), 1)
   \<and> recursiveCalls (snd (snd (processSingleSerpQuery demoEnv 0 alphaQuery 3 2 [] []))) = []
   \<and> plannerCalls (snd (snd (processSingleSerpQuery demoEnv 0 alphaQuery 3 2 [] []))) = []
   \<and> firecrawlSearch demoEnv 0 (query deltaQuery) = (Inr (pageOf ''delta''), 1)
   \<and> processSerpResult demoEnv 1 (query deltaQuery) (pageOf ''delta'') \<lceil>real_of_int 3 / 2\<rceil>
       = (Inl (Thrown (Message ''schema mismatch'')), 2,
          [LogRan ''delta'' 1, GenerateAnalysis ''delta'' [''about delta''] 3 2])
   \<and> recursiveCalls (snd (snd (processSingleSerpQuery demoEnv 0 deltaQuery 3 2 [] []))) = []
   \<and> plannerCalls (snd (snd (processSingleSerpQuery demoEnv 0 deltaQuery 3 2 [] []))) = []
   \<and> firecrawlSearch demoEnv 0 (query betaQuery) = (Inr (pageOf ''beta''), 1)
   \<and> processSerpResult demoEnv 1 (query betaQuery) (pageOf ''beta'') \<lceil>real_of_int 3 / 2\<rceil>
       = (Inr (analysisOf ''beta''), 2,
          [LogRan ''beta'' 1, GenerateAnalysis ''beta'' [''about beta''] 3 \<lceil>real_of_int 3 / 2\<rceil>,
           LogCreatedLearnings 1])
   \<and> followUpQuestions (analysisOf ''beta'') = []
   \<and> 0 < (2::int) - 1
   \<and> recursiveCalls (snd (snd (processSingleSerpQuery demoEnv 0 betaQuery 3 2 [] [])))
       = [(generateNextResearchQuery (researchGoal betaQuery) [], \<lceil>real_of_int 3 / 2\<rceil>, 1,
           [''learned beta''], [''http://beta''])]
   \<and> plannerCalls (snd (snd (processSingleSerpQuery demoEnv 0 betaQuery 3 2 [] []))) \<noteq> []
   \<and> fst (tryProcessSingleSerpQuery demoEnv 0 betaQuery 3 2 [] [])
       = Inr \<lparr>learnings = [''learned beta''], visitedUrls = [''http://beta'']\<rparr>
   \<and> fst (snd (tryProcessSingleSerpQuery demoEnv 0 betaQuery 3 2 [] [])) = 6
   \<and> processSingleSerpQuery demoEnv 0 betaQuery 2 1 [] []
       = (Inr \<lparr>learnings = [''learned beta''], visitedUrls = [''http://beta'']\<rparr>, 2,
          [Sleep 1000, FirecrawlSearch ''beta'', LogRan ''beta'' 1,
           GenerateAnalysis ''beta'' [''about beta''] 3 1, LogCreatedLearnings 1])"
proof -
  note shallow = recursion_gated_by_depth [where d=1 and env=demoEnv and w=0 and sq=betaQuery
      and b=2 and ls="[]" and vs="[]" and q="''topic''" and result="pageOf ''beta''"
      and ?w1.0=1 and a="analysisOf ''beta''" and ?w2.0=2
      and ?t2.0="[LogRan ''beta'' 1,
        GenerateAnalysis ''beta'' [''about beta''] 3 \<lceil>real_of_int 2 / 2\<rceil>,
        LogCreatedLearnings 1]"]
  note zero = recursion_gated_by_depth [where d=0 and env=demoEnv and w=0 and sq=betaQuery
      and b=2 and ls="[]" and vs="[]" and q="''topic''"]
  note failed = recursion_gated_by_depth [where d=2 and env=demoEnv and w=0 and sq=alphaQuery
      and b=3 and ls="[]" and vs="[]" and ?w1.0=1
      and e="Thrown (Message ''Timeout after 15000 ms'')"]
  note unanalysed = recursion_gated_by_depth [where d=2 and env=demoEnv and w=0
      and sq=deltaQuery and b=3 and ls="[]" and vs="[]" and result="pageOf ''delta''"
      and ?w1.0=1 and e="Thrown (Message ''schema mismatch'')" and ?w2.0=2
      and ?t2.0="[LogRan ''delta'' 1, GenerateAnalysis ''delta'' [''about delta''] 3 2]"]
  note deep = recursion_gated_by_depth [where d=2 and env=demoEnv and w=0 and sq=betaQuery
      and b=3 and ls="[]" and vs="[]" and q="''topic''" and result="pageOf ''beta''"
      and ?w1.0=1 and a="analysisOf ''beta''" and ?w2.0=2
      and ?t2.0="[LogRan ''beta'' 1,
        GenerateAnalysis ''beta'' [''about beta''] 3 \<lceil>real_of_int 3 / 2\<rceil>,
        LogCreatedLearnings 1]"]
  have d1: "\<not> 0 < (1::int) - 1" and d2: "0 < (2::int) - 1" by simp_all
  have fa: "firecrawlSearch demoEnv 0 (query alphaQuery)
       = (Inl (Thrown (Message ''Timeout after 15000 ms'')), 1)"
    by (simp add: demoEnv_def alphaQuery_def)
  from shallow d1
  have s: "recursiveCalls (snd (snd (processSingleSerpQuery demoEnv 0 betaQuery 2 1 [] []))) = []
    \<and> plannerCalls (snd (snd (processSingleSerpQuery demoEnv 0 betaQuery 2 1 [] []))) = []
    \<and> recursiveCalls (snd (snd (deepResearch demoEnv 0 ''topic'' 2 1 [] []))) = []
    \<and> plannerCalls (snd (snd (deepResearch demoEnv 0 ''topic'' 2 1 [] []))) = [(''topic'', 2, [])]"
    by blast
  from shallow d1 demo_beta_search demo_beta_process
  have "processSingleSerpQuery demoEnv 0 betaQuery 2 1 [] []
       = (Inr \<lparr>learnings = [] @ analysisLearnings (analysisOf ''beta''),
               visitedUrls = [] @ extractUrlsFromResult (pageOf ''beta'')\<rparr>, 2,
          [Sleep RATE_LIMIT_MS, FirecrawlSearch (query betaQuery)] @
          [LogRan ''beta'' 1,
           GenerateAnalysis ''beta'' [''about beta''] 3 \<lceil>real_of_int 2 / 2\<rceil>,
           LogCreatedLearnings 1])"
    by blast
  then have t: "processSingleSerpQuery demoEnv 0 betaQuery 2 1 [] []
       = (Inr \<lparr>learnings = [''learned beta''], visitedUrls = [''http://beta'']\<rparr>, 2,
          [Sleep 1000, FirecrawlSearch ''beta'', LogRan ''beta'' 1,
           GenerateAnalysis ''beta'' [''about beta''] 3 1, LogCreatedLearnings 1])"
    by (simp add: analysisOf_def pageOf_def extractUrlsFromResult_def compact_def
        RATE_LIMIT_MS_def betaQuery_def ceil_half)
  from zero
  have z: "recursiveCalls (snd (snd (deepResearch demoEnv 0 ''topic'' 2 0 [] []))) = []
    \<and> plannerCalls (snd (snd (deepResearch demoEnv 0 ''topic'' 2 0 [] []))) = [(''topic'', 2, [])]"
    by blast
  from failed fa
  have f: "recursiveCalls (snd (snd (processSingleSerpQuery demoEnv 0 alphaQuery 3 2 [] []))) = []
    \<and> plannerCalls (snd (snd (processSingleSerpQuery demoEnv 0 alphaQuery 3 2 [] []))) = []"
    by blast
  have fd: "firecrawlSearch demoEnv 0 (query deltaQuery) = (Inr (pageOf ''delta''), 1)"
    by (simp add: demoEnv_def deltaQuery_def)
  have pd: "processSerpResult demoEnv 1 (query deltaQuery) (pageOf ''delta'') \<lceil>real_of_int 3 / 2\<rceil>
       = (Inl (Thrown (Message ''schema mismatch'')), 2,
          [LogRan ''delta'' 1, GenerateAnalysis ''delta'' [''about delta''] 3 2])"
    by (simp add: demo_simps)
  from unanalysed fd pd
  have u: "recursiveCalls (snd (snd (processSingleSerpQuery demoEnv 0 deltaQuery 3 2 [] []))) = []
    \<and> plannerCalls (snd (snd (processSingleSerpQuery demoEnv 0 deltaQuery 3 2 [] []))) = []"
    by blast
  from deep d2 demo_beta_search demo_beta_process
  have "recursiveCalls (snd (snd (processSingleSerpQuery demoEnv 0 betaQuery 3 2 [] [])))
       = [(generateNextResearchQuery (researchGoal betaQuery) (followUpQuestions (analysisOf ''beta'')),
           \<lceil>real_of_int 3 / 2\<rceil>, 2 - 1,
           [] @ analysisLearnings (analysisOf ''beta''),
           [] @ extractUrlsFromResult (pageOf ''beta''))]"
    by blast
  then have c: "recursiveCalls (snd (snd (processSingleSerpQuery demoEnv 0 betaQuery 3 2 [] [])))
       = [(generateNextResearchQuery (researchGoal betaQuery) [], \<lceil>real_of_int 3 / 2\<rceil>, 1,
           [''learned beta''], [''http://beta''])]"
    by (simp add: analysisOf_def pageOf_def extractUrlsFromResult_def compact_def)
  from deep d2 demo_beta_search demo_beta_process
  have p: "plannerCalls (snd (snd (processSingleSerpQuery demoEnv 0 betaQuery 3 2 [] []))) \<noteq> []"
    by blast
  from deep d2 demo_beta_search demo_beta_process
  have "tryProcessSingleSerpQuery demoEnv 0 betaQuery 3 2 [] []
      = (case deepResearch demoEnv 2
                (generateNextResearchQuery (researchGoal betaQuery)
                   (followUpQuestions (analysisOf ''beta'')))
                \<lceil>real_of_int 3 / 2\<rceil> (2 - 1)
                ([] @ analysisLearnings (analysisOf ''beta''))
                ([] @ extractUrlsFromResult (pageOf ''beta'')) of
           (r, w3, t3) \<Rightarrow>
             (r, w3,
              [Sleep RATE_LIMIT_MS, FirecrawlSearch (query betaQuery)] @
              [LogRan ''beta'' 1,
               GenerateAnalysis ''beta'' [''about beta''] 3 \<lceil>real_of_int 3 / 2\<rceil>,
               LogCreatedLearnings 1] @
              [LogResearchingDeeper \<lceil>real_of_int 3 / 2\<rceil> (2 - 1),
               DeepResearchCall
                 (generateNextResearchQuery (researchGoal betaQuery)
                    (followUpQuestions (analysisOf ''beta'')))
                 \<lceil>real_of_int 3 / 2\<rceil> (2 - 1)
                 ([] @ analysisLearnings (analysisOf ''beta''))
                 ([] @ extractUrlsFromResult (pageOf ''beta'')) t3]))"
    by blast
  then have r: "fst (tryProcessSingleSerpQuery demoEnv 0 betaQuery 3 2 [] [])
       = Inr \<lparr>learnings = [''learned beta''], visitedUrls = [''http://beta'']\<rparr>
     \<and> fst (snd (tryProcessSingleSerpQuery demoEnv 0 betaQuery 3 2 [] [])) = 6"
    unfolding demo_beta_nested by simp
  from d1 d2 s z fa f fd pd u c p r t demo_beta_search demo_beta_process show ?thesis
    by (simp add: analysisOf_def)
qed



text \<open>
  C10. When the planner returns no query, \<^verbatim>\<open>deepResearch\<close> returns the empty
  result, whatever learnings and URLs it was given.
\<close>

theorem no_queries_empty_result:
  assumes "generateQueries env w q b ls = (Inr [], w1)"
  shows "deepResearch env w q b d ls vs
    = (Inr \<lparr>learnings = [], visitedUrls = []\<rparr>, w1,
       [GenerateQueries q b ls, LogCreatedQueries 0])"
  by (simp add: deepResearch.simps plan_eq(2) [OF assms] slice0_def aggregate_def newSet_def)

theorem no_queries_empty_result_witness:
  "generateQueries demoEnv 0 ''nothing'' 4 [''old''] = (Inr [], 1)
   \<and> deepResearch demoEnv 0 ''nothing'' 4 2 [''old''] [''http://old'']
     = (Inr \<lparr>learnings = [], visitedUrls = []\<rparr>, 1,
        [GenerateQueries ''nothing'' 4 [''old''], LogCreatedQueries 0])"
proof -
  have h: "generateQueries demoEnv 0 ''nothing'' 4 [''old''] = (Inr [], 1)"
    by (simp add: demoEnv_def)
  from h no_queries_empty_result [OF h] show ?thesis by blast
qed

end
